theory Spec2Isabelle
  imports Complex_Main "HOL-Library.Sublist"
begin

section \<open>JavaScript values and thrown errors\<close>

text \<open>
  The fields \<open>status\<close> and \<open>code\<close> of a thrown error are untyped in the source
  (\<open>err: any\<close>). They are modelled by the values the retry wrapper can tell apart:
  absent, null, a number, a string. \<open>err_body\<close> is the \<open>body\<close> the REST helpers attach
  to the error of a response that is not ok.
\<close>

datatype jsval = JUndefined | JNull | JNum int | JStr string

text \<open>JavaScript truthiness, as \<open>||\<close> uses it.\<close>

fun truthy :: "jsval \<Rightarrow> bool" where
  "truthy JUndefined = False"
| "truthy JNull = False"
| "truthy (JNum n) = (n \<noteq> 0)"
| "truthy (JStr s) = (s \<noteq> [])"

definition js_or :: "jsval \<Rightarrow> jsval \<Rightarrow> jsval" where
  "js_or a b = (if truthy a then a else b)"

record err =
  err_message :: string
  err_status :: jsval
  err_code :: jsval
  err_body :: "string option"

text \<open>
  A thrown value: \<open>undefined\<close> (what \<open>throw lastErr\<close> throws when no attempt was
  made) or an error object.
\<close>

datatype exn = Undefined | Error err

definition plain_error :: "string \<Rightarrow> exn" where
  "plain_error msg =
     Error \<lparr>err_message = msg, err_status = JUndefined, err_code = JUndefined, err_body = None\<rparr>"

definition status_error :: "string \<Rightarrow> int \<Rightarrow> exn" where
  "status_error msg st =
     Error \<lparr>err_message = msg, err_status = JNum st, err_code = JUndefined, err_body = None\<rparr>"

text \<open>A number in a template literal: its decimal digits.\<close>

fun show_nat :: "nat \<Rightarrow> string" where
  "show_nat n = (if n < 10 then [char_of (48 + n)]
                 else show_nat (n div 10) @ [char_of (48 + n mod 10)])"

definition show_int :: "int \<Rightarrow> string" where
  "show_int i = (if i < 0 then ''-'' @ show_nat (nat (- i)) else show_nat (nat i))"

section \<open>Retry with exponential backoff (miro-poc.ts, backoff)\<close>

text \<open>\<open>const status = err?.status || err?.code;\<close>\<close>

fun status_of :: "exn \<Rightarrow> jsval" where
  "status_of Undefined = JUndefined"
| "status_of (Error e) = js_or (err_status e) (err_code e)"

text \<open>\<open>if (status === 401 || status === 403) throw err;\<close>\<close>

definition fail_fast :: "exn \<Rightarrow> bool" where
  "fail_fast e = (status_of e = JNum 401 \<or> status_of e = JNum 403)"

text \<open>
  What one call of the wrapper did: its outcome (\<open>Inl\<close> the thrown value), the state of
  the world after the last attempt, the delays slept in order (milliseconds) and the
  number of attempts made.
\<close>

record ('a, 's) backoff_result =
  outcome :: "exn + 'a"
  final_state :: 's
  slept :: "nat list"
  attempts :: nat

text \<open>
  The loop \<open>for (let attempt = 1; attempt <= maxAttempts; attempt++)\<close>. The wrapped
  operation \<open>fn\<close> acts on a state \<open>'s\<close> (the world it talks to) and either returns or
  throws.
\<close>

function backoff_loop ::
  "('s \<Rightarrow> (exn + 'a) \<times> 's) \<Rightarrow> nat \<Rightarrow> nat \<Rightarrow> nat \<Rightarrow> exn \<Rightarrow> 's \<Rightarrow> nat list
     \<Rightarrow> ('a, 's) backoff_result" where
  "backoff_loop fn maxAttempts attempt delay lastErr s sl =
     (if attempt \<le> maxAttempts then
        (case fn s of
           (Inr v, s') \<Rightarrow>
             \<lparr>outcome = Inr v, final_state = s', slept = sl, attempts = attempt\<rparr>
         | (Inl e, s') \<Rightarrow>
             if fail_fast e then
               \<lparr>outcome = Inl e, final_state = s', slept = sl, attempts = attempt\<rparr>
             else if attempt = maxAttempts then
               \<lparr>outcome = Inl e, final_state = s', slept = sl, attempts = attempt\<rparr>
             else
               backoff_loop fn maxAttempts (attempt + 1) (min (delay * 2) 8000) e s'
                 (sl @ [delay]))
      else \<lparr>outcome = Inl lastErr, final_state = s, slept = sl, attempts = attempt - 1\<rparr>)"
  by pat_completeness auto
termination
  by (relation "measure (\<lambda>(fn, maxAttempts, attempt, delay, lastErr, s, sl).
        Suc maxAttempts - attempt)") auto

definition backoff :: "('s \<Rightarrow> (exn + 'a) \<times> 's) \<Rightarrow> nat \<Rightarrow> 's \<Rightarrow> ('a, 's) backoff_result" where
  "backoff fn maxAttempts s = backoff_loop fn maxAttempts 1 500 Undefined s []"

text \<open>The state before attempt \<open>k + 1\<close>: the world after \<open>k\<close> calls of the operation.\<close>

fun state_after :: "('s \<Rightarrow> (exn + 'a) \<times> 's) \<Rightarrow> nat \<Rightarrow> 's \<Rightarrow> 's" where
  "state_after fn 0 s = s"
| "state_after fn (Suc k) s = state_after fn k (snd (fn s))"

text \<open>An attempt after which the wrapper sleeps and tries again.\<close>

definition retried :: "exn + 'a \<Rightarrow> bool" where
  "retried r = (case r of Inl e \<Rightarrow> \<not> fail_fast e | Inr v \<Rightarrow> False)"

text \<open>
  A scripted operation for concrete runs: the state is the list of outcomes still to
  come, and each call consumes one.
\<close>

fun scripted :: "(exn + 'a) list \<Rightarrow> (exn + 'a) \<times> (exn + 'a) list" where
  "scripted [] = (Inl (plain_error ''script exhausted''), [])"
| "scripted (r # rs) = (r, rs)"

text \<open>The delays of the first \<open>k\<close> sleeps: 500 ms, doubling, capped at 8000 ms.\<close>

definition delays :: "nat \<Rightarrow> nat list" where
  "delays k = map (\<lambda>i. min (500 * 2 ^ i) 8000) [0..<k]"

text \<open>
  The policy in the words of the specification, to be compared with the loop above. An
  error carries the status \<open>n\<close> when its \<open>status\<close> is \<open>n\<close>, or when it has no truthy
  \<open>status\<close> and its \<open>code\<close> is \<open>n\<close>; the thrown value \<open>undefined\<close> carries none. An
  attempt threw another error when what it threw carries neither 401 nor 403.
\<close>

fun carries :: "exn \<Rightarrow> int \<Rightarrow> bool" where
  "carries Undefined n = False"
| "carries (Error x) n =
     (err_status x = JNum n \<or> (\<not> truthy (err_status x) \<and> err_code x = JNum n))"

definition other_error :: "exn + 'a \<Rightarrow> bool" where
  "other_error r = (case r of Inl e \<Rightarrow> \<not> carries e 401 \<and> \<not> carries e 403 | Inr v \<Rightarrow> False)"

text \<open>An error object with a \<open>code\<close> and no \<open>status\<close>, for concrete runs.\<close>

definition code_error :: "string \<Rightarrow> int \<Rightarrow> exn" where
  "code_error msg c =
     Error \<lparr>err_message = msg, err_status = JUndefined, err_code = JNum c, err_body = None\<rparr>"

section \<open>Layout (miro-poc.ts, gridLayoutInFrame)\<close>

text \<open>
  JavaScript numbers are modelled by exact rationals: the layout adds and multiplies
  small integers and halves, which IEEE doubles represent exactly.
\<close>

text \<open>
  \<open>frame_id\<close> is the \<open>id\<close> of the service's item the frame was read from; it is
  \<open>undefined\<close> (\<open>None\<close>) at run time when that item carries none.
\<close>

record FrameSpec =
  frame_id :: "string option"
  frame_title :: string
  frame_x :: rat
  frame_y :: rat
  frame_width :: rat
  frame_height :: rat

record StickySpec =
  content :: string
  note_x :: rat
  note_y :: rat
  note_width :: "rat option"
  note_height :: "rat option"
  parentId :: "string option"

record layout_opts =
  opt_columns :: "rat option"
  opt_gap :: "rat option"
  opt_pad :: "rat option"
  opt_noteW :: "rat option"
  opt_noteH :: "rat option"
  opt_runId :: "string option"

text \<open>\<open>a ?? b\<close>, for an optional field \<open>a\<close>.\<close>

definition coalesce :: "'a option \<Rightarrow> 'a \<Rightarrow> 'a" where
  "coalesce a b = (case a of Some v \<Rightarrow> v | None \<Rightarrow> b)"

text \<open>
  \<open>a % b\<close> for \<open>b \<noteq> 0\<close>: the remainder of the division truncated towards zero (it has
  the sign of \<open>a\<close>). \<open>Math.floor(a / b)\<close> is \<open>\<lfloor>a / b\<rfloor>\<close>.
\<close>

definition js_trunc :: "rat \<Rightarrow> int" where
  "js_trunc q = (if 0 \<le> q then \<lfloor>q\<rfloor> else \<lceil>q\<rceil>)"

definition js_rem :: "rat \<Rightarrow> rat \<Rightarrow> rat" where
  "js_rem a b = a - b * of_int (js_trunc (a / b))"

text \<open>The body of \<open>items.forEach((text, idx) => ...)\<close> for one item.\<close>

definition place :: "rat \<Rightarrow> rat \<Rightarrow> rat \<Rightarrow> rat \<Rightarrow> rat \<Rightarrow> rat \<Rightarrow> nat \<times> string \<Rightarrow> StickySpec" where
  "place columns gap noteW noteH startX startY p =
     (case p of (idx, text) \<Rightarrow>
        let col = js_rem (of_nat idx) columns;
            row = of_int \<lfloor>of_nat idx / columns\<rfloor>;
            x = startX + col * (noteW + gap);
            y = startY + row * (noteH + gap)
        in \<lparr>content = text, note_x = x, note_y = y, note_width = Some noteW,
            note_height = None, parentId = None\<rparr>)"

text \<open>
  With \<open>columns = 0\<close> JavaScript computes \<open>idx % 0 = NaN\<close> and \<open>idx / 0 = Infinity\<close> (or
  \<open>NaN\<close>): every item gets coordinates that are not numbers. The model has no such
  values and returns \<open>None\<close> there; with no items the source returns the empty list.
\<close>

definition gridLayoutInFrame :: "FrameSpec \<Rightarrow> string list \<Rightarrow> layout_opts \<Rightarrow> StickySpec list option" where
  "gridLayoutInFrame frame items opts =
     (let columns = coalesce (opt_columns opts) 3;
          gap = coalesce (opt_gap opts) 20;
          pad = coalesce (opt_pad opts) 40;
          noteW = coalesce (opt_noteW opts) 180;
          noteH = coalesce (opt_noteH opts) 120;
          frameLeft = frame_x frame - frame_width frame / 2;
          frameTop = frame_y frame - frame_height frame / 2;
          startX = frameLeft + pad;
          startY = frameTop + pad
      in if columns = 0 \<and> items \<noteq> [] then None
         else Some (map (place columns gap noteW noteH startX startY) (enumerate 0 items)))"

text \<open>The options the main flow passes: \<open>{ columns: 3 }\<close>.\<close>

definition columns3 :: layout_opts where
  "columns3 = \<lparr>opt_columns = Some 3, opt_gap = None, opt_pad = None, opt_noteW = None,
     opt_noteH = None, opt_runId = None\<rparr>"

section \<open>Run identifier, decoration and delta (miro-poc.ts, main flow steps 1 and 3)\<close>

text \<open>
  \<open>sha256(transcript).slice(0, 10)\<close>. The digest is a library function; it is a
  parameter of the model.
\<close>

definition computeId :: "(string \<Rightarrow> string) \<Rightarrow> string \<Rightarrow> string" where
  "computeId digest transcript = take 10 (digest transcript)"

definition marker :: "string \<Rightarrow> string" where
  "marker runId = ''[runId:'' @ runId @ '']''"

text \<open>\<open>const decorate = (s) => `${s}\n\n[runId:${extracted.runId}]`\<close>\<close>

definition decorate :: "string \<Rightarrow> string \<Rightarrow> string" where
  "decorate runId s = s @ [CHR 0x0A, CHR 0x0A] @ marker runId"

text \<open>
  An item as the board lists it. Every field may be missing in the JSON. \<open>item_data\<close>
  is the object under \<open>data\<close> (\<open>None\<close> when the item has no \<open>data\<close>), with its
  \<open>title\<close> and its \<open>content\<close> when they are strings; \<open>item_parent\<close> is \<open>parent.id\<close>.
\<close>

record data_fields =
  data_title :: "string option"
  data_content :: "string option"

record board_item =
  item_id :: "string option"
  item_type :: "string option"
  item_data :: "data_fields option"
  item_x :: "rat option"
  item_y :: "rat option"
  item_w :: "rat option"
  item_h :: "rat option"
  item_parent :: "string option"

text \<open>\<open>n?.data?.title\<close> and \<open>n?.data?.content\<close>\<close>

definition item_title :: "board_item \<Rightarrow> string option" where
  "item_title n = (case item_data n of Some d \<Rightarrow> data_title d | None \<Rightarrow> None)"

definition item_content :: "board_item \<Rightarrow> string option" where
  "item_content n = (case item_data n of Some d \<Rightarrow> data_content d | None \<Rightarrow> None)"

text \<open>\<open>s.includes(t)\<close>: \<open>t\<close> occurs in \<open>s\<close> as a contiguous piece.\<close>

definition js_includes :: "'a list \<Rightarrow> 'a list \<Rightarrow> bool" where
  "js_includes s t = sublist t s"

text \<open>
  \<open>typeof n?.data?.content === "string" && n.data.content.includes(`[runId:${runId}]`)\<close>
\<close>

definition hasRunId :: "string \<Rightarrow> board_item \<Rightarrow> bool" where
  "hasRunId runId n =
     (case item_content n of Some c \<Rightarrow> js_includes c (marker runId) | None \<Rightarrow> False)"

text \<open>\<open>new Set(existing.filter(hasRunId).map((n) => n.data.content))\<close>\<close>

definition skip_set :: "string \<Rightarrow> board_item list \<Rightarrow> string set" where
  "skip_set runId existing = set (map (\<lambda>n. the (item_content n)) (filter (hasRunId runId) existing))"

text \<open>\<open>bullets.filter((s) => !skip.has(s))\<close>\<close>

definition to_create :: "string \<Rightarrow> board_item list \<Rightarrow> string list \<Rightarrow> string list" where
  "to_create runId existing bullets = filter (\<lambda>s. s \<notin> skip_set runId existing) bullets"

text \<open>A sticky note with the given text and nothing else, for concrete runs.\<close>

definition sticky_item :: "string \<Rightarrow> board_item" where
  "sticky_item c = \<lparr>item_id = None, item_type = Some ''sticky_note'',
     item_data = Some \<lparr>data_title = None, data_content = Some c\<rparr>, item_x = None, item_y = None, item_w = None, item_h = None,
     item_parent = None\<rparr>"

section \<open>The REST transport (miro-poc.ts, Miro REST helpers)\<close>

text \<open>
  The requests the program sends, by endpoint: the items listing with its type and
  limit, frame creation and sticky note creation, each with the JSON body sent. The
  sticky note endpoint of the board service reads an optional parent reference
  (\<open>parent: {id}\<close>) from the body; \<open>sb_parent\<close> is that field.
\<close>

record frame_body =
  fb_title :: string
  fb_x :: rat
  fb_y :: rat
  fb_width :: rat
  fb_height :: rat
  fb_fillColor :: string

record sticky_body =
  sb_content :: string
  sb_x :: rat
  sb_y :: rat
  sb_width :: "rat option"
  sb_parent :: "string option"

datatype request =
    GET_items string string nat
  | POST_frames string frame_body
  | POST_sticky_notes string sticky_body

text \<open>
  The JSON of a response body, as far as the program reads it: \<open>null\<close>, one object
  read as an item, or an object whose \<open>data\<close> is a list of items.
\<close>

datatype payload = PNull | PItem board_item | PPage "board_item list"

text \<open>
  A response. Its body is read as JSON when the response is ok and as text when it is
  not: \<open>resp_json\<close> is what \<open>resp.json()\<close> gives (\<open>None\<close> when the body is not JSON and
  the promise rejects), \<open>resp_text\<close> what \<open>resp.text()\<close> gives.
\<close>

record http_response =
  resp_ok :: bool
  resp_status :: int
  resp_json :: "payload option"
  resp_text :: string

text \<open>
  The network and the service behind it are a parameter \<open>net\<close>: a request meets a state
  \<open>'st\<close> of the outside world and either fails (\<open>fetch\<close> rejects) or gets a response.
  The world also keeps the list of requests sent so far.
\<close>

record 'st world =
  srv :: 'st
  calls :: "request list"

definition fetch :: "('st \<Rightarrow> request \<Rightarrow> (exn + http_response) \<times> 'st) \<Rightarrow> request \<Rightarrow> 'st world
    \<Rightarrow> (exn + http_response) \<times> 'st world" where
  "fetch net req w =
     (case net (srv w) req of (r, s') \<Rightarrow> (r, w\<lparr>srv := s', calls := calls w @ [req]\<rparr>))"

text \<open>The method and the path of a request, as the error message prints them.\<close>

fun method_of :: "request \<Rightarrow> string" where
  "method_of (GET_items boardId ty limit) = ''GET''"
| "method_of (POST_frames boardId body) = ''POST''"
| "method_of (POST_sticky_notes boardId body) = ''POST''"

fun path_of :: "request \<Rightarrow> string" where
  "path_of (GET_items boardId ty limit) =
     ''/boards/'' @ boardId @ ''/items?type='' @ ty @ ''&limit='' @ show_nat limit"
| "path_of (POST_frames boardId body) = ''/boards/'' @ boardId @ ''/frames''"
| "path_of (POST_sticky_notes boardId body) = ''/boards/'' @ boardId @ ''/sticky_notes''"

text \<open>
  The error thrown for a response that is not ok:
  \<open>new Error(`Miro GET ${path} -> ${resp.status}`)\<close> with \<open>err.status = resp.status\<close>
  and \<open>err.body = t\<close>, the text of the body.
\<close>

definition http_error :: "request \<Rightarrow> http_response \<Rightarrow> exn" where
  "http_error req resp =
     Error \<lparr>err_message = ''Miro '' @ method_of req @ '' '' @ path_of req @ '' -> '' @
                show_int (resp_status resp),
            err_status = JNum (resp_status resp), err_code = JUndefined,
            err_body = Some (resp_text resp)\<rparr>"

text \<open>
  \<open>miroGET\<close> and \<open>miroPOST\<close> have the same body: the fetch under \<open>backoff\<close>, then the
  check of \<open>resp.ok\<close> (outside the retry wrapper), then \<open>resp.json()\<close>.
\<close>

definition miro_call :: "('st \<Rightarrow> request \<Rightarrow> (exn + http_response) \<times> 'st) \<Rightarrow> request \<Rightarrow> 'st world
    \<Rightarrow> (exn + payload) \<times> 'st world" where
  "miro_call net req w =
     (let r = backoff (fetch net req) 5 w in
      case outcome r of
        Inl e \<Rightarrow> (Inl e, final_state r)
      | Inr resp \<Rightarrow>
          if \<not> resp_ok resp then (Inl (http_error req resp), final_state r)
          else (case resp_json resp of
                  None \<Rightarrow> (Inl (plain_error ''SyntaxError''), final_state r)
                | Some p \<Rightarrow> (Inr p, final_state r)))"

definition miroGET :: "('st \<Rightarrow> request \<Rightarrow> (exn + http_response) \<times> 'st) \<Rightarrow> request \<Rightarrow> 'st world
    \<Rightarrow> (exn + payload) \<times> 'st world" where
  "miroGET net req w = miro_call net req w"

definition miroPOST :: "('st \<Rightarrow> request \<Rightarrow> (exn + http_response) \<times> 'st) \<Rightarrow> request \<Rightarrow> 'st world
    \<Rightarrow> (exn + payload) \<times> 'st world" where
  "miroPOST net req w = miro_call net req w"

text \<open>
  \<open>(frames?.data || [])\<close>: the list under \<open>data\<close>; the empty list for \<open>null\<close> and for
  an object without \<open>data\<close>. The \<open>data\<close> of an item is an object without \<open>find\<close> or
  \<open>filter\<close>: a TypeError.
\<close>

definition TypeError :: exn where
  "TypeError = plain_error ''TypeError''"

fun page_items :: "payload \<Rightarrow> exn + board_item list" where
  "page_items PNull = Inr []"
| "page_items (PPage xs) = Inr xs"
| "page_items (PItem it) = (case item_data it of None \<Rightarrow> Inr [] | Some d \<Rightarrow> Inl TypeError)"

text \<open>
  \<open>s.trim()\<close>. A \<open>string\<close> holds characters up to U+00FF; the white space and line
  terminators among them are TAB, LF, VT, FF, CR, the space and the no-break space
  U+00A0.
\<close>

definition js_space :: "char \<Rightarrow> bool" where
  "js_space c = (c \<in> set [CHR 0x09, CHR 0x0A, CHR 0x0B, CHR 0x0C, CHR 0x0D, CHR '' '', CHR 0xA0])"

definition js_trim :: "string \<Rightarrow> string" where
  "js_trim s = rev (dropWhile js_space (rev (dropWhile js_space s)))"

text \<open>
  \<open>{ id: match.id, title, x: match.position?.x ?? x, y: match.position?.y ?? y,
  width: match.geometry?.width ?? width, height: match.geometry?.height ?? height }\<close>
\<close>

definition frame_of_item :: "board_item \<Rightarrow> string \<Rightarrow> rat \<Rightarrow> rat \<Rightarrow> rat \<Rightarrow> rat \<Rightarrow> FrameSpec" where
  "frame_of_item it title x y width height =
     \<lparr>frame_id = item_id it, frame_title = title,
      frame_x = coalesce (item_x it) x, frame_y = coalesce (item_y it) y,
      frame_width = coalesce (item_w it) width, frame_height = coalesce (item_h it) height\<rparr>"

text \<open>\<open>f?.data?.title?.trim() === title.trim()\<close>\<close>

definition title_matches :: "string \<Rightarrow> board_item \<Rightarrow> bool" where
  "title_matches title f =
     (case item_title f of Some t \<Rightarrow> js_trim t = js_trim title | None \<Rightarrow> False)"

definition getOrCreateFrame :: "('st \<Rightarrow> request \<Rightarrow> (exn + http_response) \<times> 'st) \<Rightarrow> string \<Rightarrow> string
    \<Rightarrow> rat \<Rightarrow> rat \<Rightarrow> rat \<Rightarrow> rat \<Rightarrow> 'st world \<Rightarrow> (exn + FrameSpec) \<times> 'st world" where
  "getOrCreateFrame net boardId title x y width height w =
     (case miroGET net (GET_items boardId ''frame'' 50) w of
        (Inl e, w1) \<Rightarrow> (Inl e, w1)
      | (Inr frames, w1) \<Rightarrow>
          (case page_items frames of
             Inl e \<Rightarrow> (Inl e, w1)
           | Inr fs \<Rightarrow>
               (case find (title_matches title) fs of
                  Some match \<Rightarrow> (Inr (frame_of_item match title x y width height), w1)
                | None \<Rightarrow>
                    (case miroPOST net
                            (POST_frames boardId
                               \<lparr>fb_title = title, fb_x = x, fb_y = y, fb_width = width,
                                fb_height = height, fb_fillColor = ''transparent''\<rparr>) w1 of
                       (Inl e, w2) \<Rightarrow> (Inl e, w2)
                     | (Inr PNull, w2) \<Rightarrow> (Inl TypeError, w2)
                     | (Inr (PItem created), w2) \<Rightarrow>
                         (Inr (frame_of_item created title x y width height), w2)
                     | (Inr (PPage xs), w2) \<Rightarrow>
                         (Inr \<lparr>frame_id = None, frame_title = title, frame_x = x, frame_y = y,
                               frame_width = width, frame_height = height\<rparr>, w2)))))"

text \<open>
  \<open>(notes?.data || []).filter((n) => n?.parent?.id === frameId)\<close>. Both sides of
  \<open>===\<close> may be \<open>undefined\<close>.
\<close>

definition listStickyNotesInFrame :: "('st \<Rightarrow> request \<Rightarrow> (exn + http_response) \<times> 'st) \<Rightarrow> string
    \<Rightarrow> string option \<Rightarrow> 'st world \<Rightarrow> (exn + board_item list) \<times> 'st world" where
  "listStickyNotesInFrame net boardId frameId w =
     (case miroGET net (GET_items boardId ''sticky_note'' 50) w of
        (Inl e, w1) \<Rightarrow> (Inl e, w1)
      | (Inr notes, w1) \<Rightarrow>
          (case page_items notes of
             Inl e \<Rightarrow> (Inl e, w1)
           | Inr ns \<Rightarrow> (Inr (filter (\<lambda>n. item_parent n = frameId) ns), w1)))"

text \<open>
  The body \<open>createSticky\<close> sends: content, position and, when \<open>note.width\<close> is truthy,
  the width. The note's \<open>parentId\<close> is not read.
\<close>

definition sticky_body_of :: "StickySpec \<Rightarrow> sticky_body" where
  "sticky_body_of note =
     \<lparr>sb_content = content note, sb_x = note_x note, sb_y = note_y note,
      sb_width = (case note_width note of
                    Some wd \<Rightarrow> if wd \<noteq> 0 then Some wd else None
                  | None \<Rightarrow> None),
      sb_parent = None\<rparr>"

definition sticky_request :: "string \<Rightarrow> StickySpec \<Rightarrow> request" where
  "sticky_request boardId note = POST_sticky_notes boardId (sticky_body_of note)"

definition createSticky :: "('st \<Rightarrow> request \<Rightarrow> (exn + http_response) \<times> 'st) \<Rightarrow> string \<Rightarrow> StickySpec
    \<Rightarrow> 'st world \<Rightarrow> (exn + payload) \<times> 'st world" where
  "createSticky net boardId note w = miroPOST net (sticky_request boardId note) w"

section \<open>Batch creation over REST (miro-poc.ts, bulkCreateStickies)\<close>

text \<open>
  \<open>created\<close> holds what was pushed: over REST \<open>r.id\<close>, which is \<open>undefined\<close> when
  the response carries no id.
\<close>

record BatchResult =
  ok :: nat
  created :: "jsval list"
  failed :: "(StickySpec \<times> exn) list"

text \<open>The \<open>id\<close> of an item as a JavaScript value.\<close>

definition id_value :: "board_item \<Rightarrow> jsval" where
  "id_value it = (case item_id it of Some i \<Rightarrow> JStr i | None \<Rightarrow> JUndefined)"

definition empty_result :: BatchResult where
  "empty_result = \<lparr>ok = 0, created = [], failed = []\<rparr>"

text \<open>
  One turn of the inner loop: the \<open>try\<close> block runs \<open>createSticky\<close>, then
  \<open>results.ok++\<close>, then \<open>results.created.push(r.id)\<close>; reading \<open>r.id\<close> of a \<open>null\<close>
  response throws a TypeError inside the block, after the increment. The \<open>catch\<close> block
  pushes the note and the error to \<open>failed\<close>.
\<close>

definition rest_create_one :: "('st \<Rightarrow> request \<Rightarrow> (exn + http_response) \<times> 'st) \<Rightarrow> string
    \<Rightarrow> BatchResult \<times> 'st world \<Rightarrow> StickySpec \<Rightarrow> BatchResult \<times> 'st world" where
  "rest_create_one net boardId acc n =
     (case acc of (results, w) \<Rightarrow>
        (case createSticky net boardId n w of
           (Inl e, w') \<Rightarrow> (results\<lparr>failed := failed results @ [(n, e)]\<rparr>, w')
         | (Inr r, w') \<Rightarrow>
             (let counted = results\<lparr>ok := ok results + 1\<rparr> in
              case r of
                PNull \<Rightarrow> (counted\<lparr>failed := failed counted @ [(n, TypeError)]\<rparr>, w')
              | PItem it \<Rightarrow> (counted\<lparr>created := created counted @ [id_value it]\<rparr>, w')
              | PPage xs \<Rightarrow> (counted\<lparr>created := created counted @ [JUndefined]\<rparr>, w'))))"

text \<open>\<open>for (const n of chunk) ...\<close>\<close>

definition rest_create_chunk :: "('st \<Rightarrow> request \<Rightarrow> (exn + http_response) \<times> 'st) \<Rightarrow> string
    \<Rightarrow> StickySpec list \<Rightarrow> BatchResult \<times> 'st world \<Rightarrow> BatchResult \<times> 'st world" where
  "rest_create_chunk net boardId chunk acc = foldl (rest_create_one net boardId) acc chunk"

text \<open>
  \<open>for (let i = 0; i < notes.length; i += chunkSize)\<close> with
  \<open>chunk = notes.slice(i, i + chunkSize)\<close>. With \<open>chunkSize = 0\<close> and a note to create
  the loop never ends: the result is \<open>None\<close>.
\<close>

partial_function (option) rest_chunks :: "('st \<Rightarrow> request \<Rightarrow> (exn + http_response) \<times> 'st) \<Rightarrow> string
    \<Rightarrow> StickySpec list \<Rightarrow> nat \<Rightarrow> nat \<Rightarrow> BatchResult \<times> 'st world \<Rightarrow> (BatchResult \<times> 'st world) option" where
  "rest_chunks net boardId notes chunkSize i acc =
     (if i < length notes
      then rest_chunks net boardId notes chunkSize (i + chunkSize)
             (rest_create_chunk net boardId (take chunkSize (drop i notes)) acc)
      else Some acc)"

declare rest_chunks.simps [code]

definition bulkCreateStickies :: "('st \<Rightarrow> request \<Rightarrow> (exn + http_response) \<times> 'st) \<Rightarrow> string
    \<Rightarrow> StickySpec list \<Rightarrow> nat \<Rightarrow> 'st world \<Rightarrow> (BatchResult \<times> 'st world) option" where
  "bulkCreateStickies net boardId notes chunkSize w =
     rest_chunks net boardId notes chunkSize 0 (empty_result, w)"

section \<open>Batch creation over the stdio transport (transport-mcp.ts, bulkCreateStickies)\<close>

record McpTool =
  tool_name :: string
  tool_description :: string

text \<open>
  The transport object. \<open>process\<close> is the child process (\<open>None\<close> for \<open>null\<close>), whose
  state has the type \<open>'p\<close>.
\<close>

record 'p McpTransport =
  tools :: "McpTool list"
  connected :: bool
  process :: "'p option"
  messageId :: nat


definition connect_tools :: "McpTool list" where
  "connect_tools =
     [\<lparr>tool_name = ''get_board_info'', tool_description = ''Get information about a Miro board''\<rparr>,
      \<lparr>tool_name = ''list_boards'', tool_description = ''List available Miro boards''\<rparr>,
      \<lparr>tool_name = ''create_sticky_note'', tool_description = ''Create a sticky note on a board''\<rparr>,
      \<lparr>tool_name = ''bulk_create_items'', tool_description = ''Create multiple items at once''\<rparr>,
      \<lparr>tool_name = ''create_shape'', tool_description = ''Create a shape on a board''\<rparr>,
      \<lparr>tool_name = ''get_frames'', tool_description = ''Get all frames from a board''\<rparr>,
      \<lparr>tool_name = ''get_items_in_frame'', tool_description = ''Get items in a specific frame''\<rparr>]"

text \<open>
  A pattern is the set of names its regular expression accepts. The two patterns of
  \<open>bulkCreateStickies\<close>, \<open>/create_?sticky/i\<close> and \<open>/create_?sticky_?note/i\<close>, accept a
  name that contains the words with or without the underscores, in any case.
\<close>

definition lower :: "char \<Rightarrow> char" where
  "lower c = (let n = (of_char c :: nat) in if 65 \<le> n \<and> n \<le> 90 then char_of (n + 32) else c)"

definition pat_create_sticky :: "string \<Rightarrow> bool" where
  "pat_create_sticky name =
     (let l = map lower name in
      js_includes l ''createsticky'' \<or> js_includes l ''create_sticky'')"

definition pat_create_sticky_note :: "string \<Rightarrow> bool" where
  "pat_create_sticky_note name =
     (let l = map lower name in
      js_includes l ''createstickynote'' \<or> js_includes l ''createsticky_note'' \<or>
      js_includes l ''create_stickynote'' \<or> js_includes l ''create_sticky_note'')"

text \<open>\<open>findTool\<close>: the first pattern that a tool matches decides, and the first such tool.\<close>

fun findTool :: "(string \<Rightarrow> bool) list \<Rightarrow> McpTool list \<Rightarrow> McpTool option" where
  "findTool [] ts = None"
| "findTool (pattern # patterns) ts =
     (case find (\<lambda>t. pattern (tool_name t)) ts of
        Some tool \<Rightarrow> Some tool
      | None \<Rightarrow> findTool patterns ts)"

text \<open>
  The arguments of the sticky note tool: \<open>boardId\<close>, \<open>content\<close>, \<open>x\<close>, \<open>y\<close> and
  \<open>color\<close>.
\<close>

datatype tool_args = CreateStickyArgs string string rat rat string

text \<open>
  What a tool call resolves with, through the two properties \<open>bulkCreateStickies\<close>
  reads of it: \<open>result?.id\<close> and \<open>result?.result\<close>. Both are \<open>undefined\<close> for a value
  that is \<open>null\<close> or \<open>undefined\<close>.
\<close>

record mcp_value =
  v_id :: jsval
  v_result :: jsval

text \<open>
  \<open>call\<close>, seen from its callers: it throws at once when the transport is not connected;
  otherwise what it settles to (a resolved value, or the rejection of the timeout) is
  decided by the child process, the parameter \<open>rpc\<close>.
\<close>

definition mcp_call :: "('p \<Rightarrow> string \<Rightarrow> tool_args \<Rightarrow> (exn + mcp_value) \<times> 'p) \<Rightarrow> McpTool \<Rightarrow> tool_args
    \<Rightarrow> 'p McpTransport \<Rightarrow> (exn + mcp_value) \<times> 'p McpTransport" where
  "mcp_call rpc tool args t =
     (case process t of
        None \<Rightarrow> (Inl (plain_error ''MCP transport not connected''), t)
      | Some p \<Rightarrow>
          if \<not> connected t then (Inl (plain_error ''MCP transport not connected''), t)
          else (case rpc p (tool_name tool) args of
                  (r, p') \<Rightarrow> (r, t\<lparr>process := Some p', messageId := messageId t + 1\<rparr>)))"

text \<open>
  \<open>result.result.match(/Created sticky note (\d+)/)\<close>: the digits after the leftmost
  occurrence of the words that a digit follows.
\<close>

definition is_digit :: "char \<Rightarrow> bool" where
  "is_digit c = (let n = (of_char c :: nat) in 48 \<le> n \<and> n \<le> 57)"

fun match_created :: "string \<Rightarrow> string option" where
  "match_created [] = None"
| "match_created (c # cs) =
     (let rest = drop (length ''Created sticky note '') (c # cs) in
      if prefix ''Created sticky note '' (c # cs) \<and> takeWhile is_digit rest \<noteq> []
      then Some (takeWhile is_digit rest)
      else match_created cs)"

text \<open>
  The id pushed to \<open>created\<close> for a resolved value, if any: \<open>result.id\<close> when truthy,
  else the digits found in a text that includes \<open>Created sticky note\<close>.
\<close>

definition pushed_id :: "mcp_value \<Rightarrow> jsval option" where
  "pushed_id v =
     (if truthy (v_id v) then Some (v_id v)
      else (case v_result v of
              JStr s \<Rightarrow>
                if js_includes s ''Created sticky note'' then map_option JStr (match_created s)
                else None
            | other \<Rightarrow> None))"

text \<open>
  \<open>{ boardId: boardId, content: note.content, x: note.x, y: note.y, color: "yellow" }\<close>
\<close>

definition sticky_args :: "string \<Rightarrow> StickySpec \<Rightarrow> tool_args" where
  "sticky_args boardId note =
     CreateStickyArgs boardId (content note) (note_x note) (note_y note) ''yellow''"

text \<open>One turn of \<open>for (const note of notes)\<close>: the \<open>try\<close> block and its \<open>catch\<close>.\<close>

definition mcp_create_one :: "('p \<Rightarrow> string \<Rightarrow> tool_args \<Rightarrow> (exn + mcp_value) \<times> 'p) \<Rightarrow> string \<Rightarrow> McpTool
    \<Rightarrow> BatchResult \<times> 'p McpTransport \<Rightarrow> StickySpec \<Rightarrow> BatchResult \<times> 'p McpTransport" where
  "mcp_create_one rpc boardId singleTool acc note =
     (case acc of (results, t) \<Rightarrow>
        (case mcp_call rpc singleTool (sticky_args boardId note) t of
           (Inl e, t') \<Rightarrow> (results\<lparr>failed := failed results @ [(note, e)]\<rparr>, t')
         | (Inr result, t') \<Rightarrow>
             (let counted = results\<lparr>ok := ok results + 1\<rparr> in
              case pushed_id result of
                Some i \<Rightarrow> (counted\<lparr>created := created counted @ [i]\<rparr>, t')
              | None \<Rightarrow> (counted, t'))))"

definition mcp_bulkCreateStickies :: "('p \<Rightarrow> string \<Rightarrow> tool_args \<Rightarrow> (exn + mcp_value) \<times> 'p) \<Rightarrow> string
    \<Rightarrow> StickySpec list \<Rightarrow> nat \<Rightarrow> 'p McpTransport \<Rightarrow> (exn + BatchResult) \<times> 'p McpTransport" where
  "mcp_bulkCreateStickies rpc boardId notes chunkSize t =
     (case findTool [pat_create_sticky, pat_create_sticky_note] (tools t) of
        None \<Rightarrow> (Inl (plain_error ''MCP server lacks sticky note creation tool''), t)
      | Some singleTool \<Rightarrow>
          (case foldl (mcp_create_one rpc boardId singleTool) (empty_result, t) notes of
             (results, t') \<Rightarrow> (Inr results, t')))"

section \<open>Runs of a batch, item by item\<close>

text \<open>
  The outcome of each create call of a batch, in order, each call meeting the world the
  calls before it left.
\<close>

fun rest_outcomes :: "('st \<Rightarrow> request \<Rightarrow> (exn + http_response) \<times> 'st) \<Rightarrow> string \<Rightarrow> StickySpec list
    \<Rightarrow> 'st world \<Rightarrow> (StickySpec \<times> (exn + payload)) list" where
  "rest_outcomes net boardId [] w = []"
| "rest_outcomes net boardId (n # ns) w =
     (case createSticky net boardId n w of
        (r, w') \<Rightarrow> (n, r) # rest_outcomes net boardId ns w')"

fun mcp_outcomes :: "('p \<Rightarrow> string \<Rightarrow> tool_args \<Rightarrow> (exn + mcp_value) \<times> 'p) \<Rightarrow> string \<Rightarrow> McpTool
    \<Rightarrow> StickySpec list \<Rightarrow> 'p McpTransport \<Rightarrow> (StickySpec \<times> (exn + mcp_value)) list" where
  "mcp_outcomes rpc boardId tool [] t = []"
| "mcp_outcomes rpc boardId tool (n # ns) t =
     (case mcp_call rpc tool (sticky_args boardId n) t of
        (r, t') \<Rightarrow> (n, r) # mcp_outcomes rpc boardId tool ns t')"

text \<open>The calls that threw, with their notes.\<close>

definition thrown :: "('n \<times> (exn + 'v)) list \<Rightarrow> ('n \<times> exn) list" where
  "thrown os = concat (map (\<lambda>(n, r). case r of Inl e \<Rightarrow> [(n, e)] | Inr v \<Rightarrow> []) os)"

text \<open>The calls that returned.\<close>

definition returned :: "('n \<times> (exn + 'v)) list \<Rightarrow> ('n \<times> 'v) list" where
  "returned os = concat (map (\<lambda>(n, r). case r of Inl e \<Rightarrow> [] | Inr v \<Rightarrow> [(n, v)]) os)"

text \<open>Scripted network and child process, for concrete runs: each call consumes one outcome.\<close>

definition scripted_net :: "(exn + http_response) list \<Rightarrow> request \<Rightarrow> (exn + http_response) \<times> (exn + http_response) list" where
  "scripted_net s req = scripted s"

definition scripted_rpc :: "(exn + mcp_value) list \<Rightarrow> string \<Rightarrow> tool_args \<Rightarrow> (exn + mcp_value) \<times> (exn + mcp_value) list" where
  "scripted_rpc s name args = scripted s"

definition created_response :: "payload \<Rightarrow> http_response" where
  "created_response p = \<lparr>resp_ok = True, resp_status = 201, resp_json = Some p, resp_text = []\<rparr>"

definition failure_response :: "int \<Rightarrow> http_response" where
  "failure_response st =
     \<lparr>resp_ok = False, resp_status = st, resp_json = None, resp_text = ''Internal Server Error''\<rparr>"

definition id_item :: "string \<Rightarrow> board_item" where
  "id_item i = \<lparr>item_id = Some i, item_type = Some ''sticky_note'',
     item_data = Some \<lparr>data_title = None, data_content = None\<rparr>, item_x = None, item_y = None, item_w = None, item_h = None,
     item_parent = None\<rparr>"

definition note_at :: "string \<Rightarrow> rat \<Rightarrow> rat \<Rightarrow> StickySpec" where
  "note_at c x y = \<lparr>content = c, note_x = x, note_y = y, note_width = Some 180,
     note_height = None, parentId = None\<rparr>"

text \<open>
  What the REST loop pushes to \<open>failed\<close>, \<open>created\<close> and counts in \<open>ok\<close>, read off the
  outcomes: a call that threw is a failure; a call that returned is counted, and after
  that its \<open>null\<close> response is a failure as well.
\<close>

definition rest_failed :: "(StickySpec \<times> (exn + payload)) list \<Rightarrow> (StickySpec \<times> exn) list" where
  "rest_failed os = concat (map (\<lambda>(n, r). case r of
       Inl e \<Rightarrow> [(n, e)] | Inr PNull \<Rightarrow> [(n, TypeError)] | Inr (PItem it) \<Rightarrow> [] | Inr (PPage xs) \<Rightarrow> []) os)"

definition rest_created :: "(StickySpec \<times> (exn + payload)) list \<Rightarrow> jsval list" where
  "rest_created os = concat (map (\<lambda>(n, r). case r of
       Inl e \<Rightarrow> [] | Inr PNull \<Rightarrow> [] | Inr (PItem it) \<Rightarrow> [id_value it]
     | Inr (PPage xs) \<Rightarrow> [JUndefined]) os)"

definition null_responses :: "(StickySpec \<times> (exn + payload)) list \<Rightarrow> nat" where
  "null_responses os = length (filter (\<lambda>(n, r). r = Inr PNull) os)"

text \<open>Five notes, and the answers of a service and of a child process whose third answer
  is a failure.\<close>

definition demo_notes :: "StickySpec list" where
  "demo_notes = [note_at ''one'' 0 0, note_at ''two'' 200 0, note_at ''three'' 400 0,
     note_at ''four'' 0 140, note_at ''five'' 200 140]"

definition demo_responses :: "(exn + http_response) list" where
  "demo_responses =
     [Inr (created_response (PItem (id_item ''101''))),
      Inr (created_response (PItem (id_item ''102''))),
      Inr (failure_response 500),
      Inr (created_response (PItem (id_item ''104''))),
      Inr (created_response (PItem (id_item ''105'')))]"

definition id_reply :: "string \<Rightarrow> mcp_value" where
  "id_reply i = \<lparr>v_id = JStr i, v_result = JUndefined\<rparr>"

definition demo_replies :: "(exn + mcp_value) list" where
  "demo_replies =
     [Inr (id_reply ''101''),
      Inr \<lparr>v_id = JUndefined, v_result = JStr ''Created sticky note 102 on board b''\<rparr>,
      Inl (plain_error ''Tool call timeout''),
      Inr (id_reply ''104''),
      Inr (id_reply ''105'')]"

definition connected_transport :: "'p \<Rightarrow> 'p McpTransport" where
  "connected_transport p = \<lparr>tools = connect_tools, connected = True, process = Some p, messageId = 2\<rparr>"

section \<open>Extraction (miro-poc.ts, getInsightsRisksFromClaude)\<close>

record InsightsRisks =
  ir_runId :: string
  ir_insights :: "string list"
  ir_risks :: "string list"

text \<open>
  \<open>isArrayOfStrings\<close>, on a list of strings: every one has text after \<open>trim\<close>.
\<close>

definition isArrayOfStrings :: "string list \<Rightarrow> bool" where
  "isArrayOfStrings a = list_all (\<lambda>s. js_trim s \<noteq> []) a"

text \<open>
  The call to the model and the parse of its answer are a parameter \<open>llm\<close>: for a
  transcript it throws, or gives the two lists of the parsed JSON. The run identifier is
  computed from the transcript alone; both lists are cut to 12 items.
\<close>

definition getInsightsRisksFromClaude :: "(string \<Rightarrow> string) \<Rightarrow> (string \<Rightarrow> exn + string list \<times> string list)
    \<Rightarrow> string \<Rightarrow> exn + InsightsRisks" where
  "getInsightsRisksFromClaude digest llm transcript =
     (case llm transcript of
        Inl e \<Rightarrow> Inl e
      | Inr (ins, rs) \<Rightarrow>
          if isArrayOfStrings ins \<and> isArrayOfStrings rs
          then Inr \<lparr>ir_runId = computeId digest transcript, ir_insights = take 12 ins,
                    ir_risks = take 12 rs\<rparr>
          else Inl (plain_error ''Claude JSON failed validation''))"

section \<open>The transport interface and the main flow (miro-poc.ts)\<close>

text \<open>
  \<open>TransportLayer\<close>: the three operations, each acting on a world \<open>'w\<close>. A batch that
  does not return is \<open>None\<close>.
\<close>

record 'w TransportLayer =
  tr_getOrCreateFrame :: "string \<Rightarrow> string \<Rightarrow> rat \<Rightarrow> rat \<Rightarrow> rat \<Rightarrow> rat \<Rightarrow> 'w \<Rightarrow> (exn + FrameSpec) \<times> 'w"
  tr_listStickyNotesInFrame :: "string \<Rightarrow> string option \<Rightarrow> 'w \<Rightarrow> (exn + board_item list) \<times> 'w"
  tr_bulkCreateStickies :: "string \<Rightarrow> StickySpec list \<Rightarrow> nat \<Rightarrow> 'w \<Rightarrow> ((exn + BatchResult) \<times> 'w) option"

definition RestTransport :: "('st \<Rightarrow> request \<Rightarrow> (exn + http_response) \<times> 'st) \<Rightarrow> 'st world TransportLayer" where
  "RestTransport net =
     \<lparr>tr_getOrCreateFrame = getOrCreateFrame net,
      tr_listStickyNotesInFrame = listStickyNotesInFrame net,
      tr_bulkCreateStickies = (\<lambda>boardId ns chunkSize w.
         map_option (\<lambda>(res, w'). (Inr res, w')) (bulkCreateStickies net boardId ns chunkSize w))\<rparr>"

text \<open>
  \<open>Promise.all\<close> of the two listings: both are started, the one of the first frame
  first; the first rejection is the error of the whole.
\<close>

definition list_both :: "'w TransportLayer \<Rightarrow> string \<Rightarrow> string option \<Rightarrow> string option \<Rightarrow> 'w
    \<Rightarrow> (exn + board_item list \<times> board_item list) \<times> 'w" where
  "list_both tr boardId f1 f2 w =
     (case tr_listStickyNotesInFrame tr boardId f1 w of
        (r1, w1) \<Rightarrow>
          (case tr_listStickyNotesInFrame tr boardId f2 w1 of
             (r2, w2) \<Rightarrow>
               (case r1 of
                  Inl e \<Rightarrow> (Inl e, w2)
                | Inr xs \<Rightarrow> (case r2 of Inl e \<Rightarrow> (Inl e, w2) | Inr ys \<Rightarrow> (Inr (xs, ys), w2)))))"

text \<open>What the preview prints, with the notes it counts.\<close>

record preview =
  pv_runId :: string
  pv_insightsFrame :: "string option"
  pv_risksFrame :: "string option"
  pv_insightsNotes :: "StickySpec list"
  pv_risksNotes :: "StickySpec list"

record summary =
  sm_created :: nat
  sm_failed :: nat
  sm_insightsWithRunId :: nat
  sm_risksWithRunId :: nat
  sm_failures :: "(StickySpec \<times> exn) list"

text \<open>
  How a run ends: an error reaches the top level, the run stops at the preview
  (\<open>process.exit(0)\<close> without \<open>--execute\<close>), or it executes and prints its summary.
\<close>

datatype run_result = Fatal exn | DryRun preview | Executed preview summary

text \<open>Steps 6 and 7: the two batches, then the listings again and the counts.\<close>

definition execute_steps :: "'w TransportLayer \<Rightarrow> string \<Rightarrow> string \<Rightarrow> FrameSpec \<Rightarrow> FrameSpec \<Rightarrow> preview \<Rightarrow> 'w
    \<Rightarrow> (run_result \<times> 'w) option" where
  "execute_steps tr boardId rid insightsFrame risksFrame pv w =
     (case tr_bulkCreateStickies tr boardId (pv_insightsNotes pv) 20 w of
        None \<Rightarrow> None
      | Some (Inl e, w1) \<Rightarrow> Some (Fatal e, w1)
      | Some (Inr created1, w1) \<Rightarrow>
          (case tr_bulkCreateStickies tr boardId (pv_risksNotes pv) 20 w1 of
             None \<Rightarrow> None
           | Some (Inl e, w2) \<Rightarrow> Some (Fatal e, w2)
           | Some (Inr created2, w2) \<Rightarrow>
               (case list_both tr boardId (frame_id insightsFrame) (frame_id risksFrame) w2 of
                  (Inl e, w3) \<Rightarrow> Some (Fatal e, w3)
                | (Inr (postInsights, postRisks), w3) \<Rightarrow>
                    Some (Executed pv
                      \<lparr>sm_created = ok created1 + ok created2,
                       sm_failed = length (failed created1) + length (failed created2),
                       sm_insightsWithRunId = length (filter (hasRunId rid) postInsights),
                       sm_risksWithRunId = length (filter (hasRunId rid) postRisks),
                       sm_failures = failed created1 @ failed created2\<rparr>, w3))))"

text \<open>
  The main flow, from the trimmed transcript on. \<open>EXECUTE\<close> is the \<open>--execute\<close> flag.
  The layout is called with 3 columns and so always returns; its \<open>None\<close> is not reached.
\<close>

definition main_flow :: "'w TransportLayer \<Rightarrow> (string \<Rightarrow> string) \<Rightarrow> (string \<Rightarrow> exn + string list \<times> string list)
    \<Rightarrow> string \<Rightarrow> bool \<Rightarrow> string \<Rightarrow> 'w \<Rightarrow> (run_result \<times> 'w) option" where
  "main_flow tr digest llm boardId EXECUTE transcript w =
     (if transcript = [] then Some (Fatal (plain_error ''Transcript is empty''), w)
      else
        (case getInsightsRisksFromClaude digest llm transcript of
           Inl e \<Rightarrow> Some (Fatal e, w)
         | Inr extracted \<Rightarrow>
             (let insightsBullets = map (decorate (ir_runId extracted)) (ir_insights extracted);
                  risksBullets = map (decorate (ir_runId extracted)) (ir_risks extracted)
              in case tr_getOrCreateFrame tr boardId ''Insights'' (- 900) 0 1400 900 w of
                   (Inl e, w1) \<Rightarrow> Some (Fatal e, w1)
                 | (Inr insightsFrame, w1) \<Rightarrow>
                     (case tr_getOrCreateFrame tr boardId ''Risks'' 900 0 1400 900 w1 of
                        (Inl e, w2) \<Rightarrow> Some (Fatal e, w2)
                      | (Inr risksFrame, w2) \<Rightarrow>
                          (case list_both tr boardId (frame_id insightsFrame) (frame_id risksFrame) w2 of
                             (Inl e, w3) \<Rightarrow> Some (Fatal e, w3)
                           | (Inr (existingInsights, existingRisks), w3) \<Rightarrow>
                               (let insightsToCreate =
                                      to_create (ir_runId extracted) existingInsights insightsBullets;
                                    risksToCreate =
                                      to_create (ir_runId extracted) existingRisks risksBullets
                                in case (gridLayoutInFrame insightsFrame insightsToCreate columns3,
                                         gridLayoutInFrame risksFrame risksToCreate columns3) of
                                     (Some ins, Some rns) \<Rightarrow>
                                       (let pv = \<lparr>pv_runId = ir_runId extracted,
                                              pv_insightsFrame = frame_id insightsFrame,
                                              pv_risksFrame = frame_id risksFrame,
                                              pv_insightsNotes =
                                                map (\<lambda>n. n\<lparr>parentId := frame_id insightsFrame\<rparr>) ins,
                                              pv_risksNotes =
                                                map (\<lambda>n. n\<lparr>parentId := frame_id risksFrame\<rparr>) rns\<rparr>
                                        in if \<not> EXECUTE then Some (DryRun pv, w3)
                                           else execute_steps tr boardId (ir_runId extracted)
                                                  insightsFrame risksFrame pv w3)
                                   | _ \<Rightarrow> Some (Fatal (plain_error ''layout''), w3)))))))"

section \<open>A model of the board service\<close>

text \<open>
  The board service is not part of the repository. For concrete runs it is modelled as
  the simplest service that keeps what it is sent: a board is the list of its items; a
  listing returns the first \<open>limit\<close> items of the type asked for; a creation stores the
  item with a fresh id and the fields of the request body, the parent among them, and
  returns it. It never fails.
\<close>

record board =
  board_items :: "board_item list"
  board_next :: nat

definition stored_frame :: "board \<Rightarrow> frame_body \<Rightarrow> board_item" where
  "stored_frame bd body =
     \<lparr>item_id = Some (show_nat (board_next bd)), item_type = Some ''frame'',
      item_data = Some \<lparr>data_title = Some (fb_title body), data_content = None\<rparr>,
      item_x = Some (fb_x body), item_y = Some (fb_y body),
      item_w = Some (fb_width body), item_h = Some (fb_height body), item_parent = None\<rparr>"

definition stored_sticky :: "board \<Rightarrow> sticky_body \<Rightarrow> board_item" where
  "stored_sticky bd body =
     \<lparr>item_id = Some (show_nat (board_next bd)), item_type = Some ''sticky_note'',
      item_data = Some \<lparr>data_title = None, data_content = Some (sb_content body)\<rparr>,
      item_x = Some (sb_x body), item_y = Some (sb_y body),
      item_w = sb_width body, item_h = None, item_parent = sb_parent body\<rparr>"

definition store :: "board \<Rightarrow> board_item \<Rightarrow> (exn + http_response) \<times> board" where
  "store bd it =
     (Inr (created_response (PItem it)),
      bd\<lparr>board_items := board_items bd @ [it], board_next := Suc (board_next bd)\<rparr>)"

fun miro :: "board \<Rightarrow> request \<Rightarrow> (exn + http_response) \<times> board" where
  "miro bd (GET_items boardId ty limit) =
     (Inr \<lparr>resp_ok = True, resp_status = 200,
           resp_json = Some (PPage (take limit (filter (\<lambda>it. item_type it = Some ty) (board_items bd)))),
           resp_text = []\<rparr>,
      bd)"
| "miro bd (POST_frames boardId body) = store bd (stored_frame bd body)"
| "miro bd (POST_sticky_notes boardId body) = store bd (stored_sticky bd body)"

definition empty_board :: board where
  "empty_board = \<lparr>board_items = [], board_next = 1\<rparr>"

text \<open>
  A request that creates a sticky note; one that does so without a parent reference; and
  the relation of a world to a later one in which only requests allowed by \<open>P\<close> were added.
\<close>

fun is_sticky_create :: "request \<Rightarrow> bool" where
  "is_sticky_create (POST_sticky_notes boardId body) = True"
| "is_sticky_create req = False"

fun is_frame_create :: "request \<Rightarrow> bool" where
  "is_frame_create (POST_frames boardId body) = True"
| "is_frame_create req = False"

fun parentless_sticky_create :: "request \<Rightarrow> bool" where
  "parentless_sticky_create (POST_sticky_notes boardId body) = (sb_parent body = None)"
| "parentless_sticky_create req = False"

definition only_added :: "(request \<Rightarrow> bool) \<Rightarrow> 'st world \<Rightarrow> 'st world \<Rightarrow> bool" where
  "only_added P w w' =
     (prefix (calls w) (calls w') \<and> list_all P (drop (length (calls w)) (calls w')))"

text \<open>A digest and a model answer for concrete runs: one insight, no risk.\<close>

definition demo_digest :: "string \<Rightarrow> string" where
  "demo_digest s = ''e3b0c44298fc1c149afbf4c8996fb924''"

definition demo_llm :: "string \<Rightarrow> exn + string list \<times> string list" where
  "demo_llm s = Inr ([''Ship on Friday''], [])"

text \<open>
  Two runs of the executing pipeline, the second on the world the first one left; the
  counts of the summary and the \<open>toCreate\<close> counts of the preview.
\<close>

definition run_twice :: "'w TransportLayer \<Rightarrow> (string \<Rightarrow> string) \<Rightarrow> (string \<Rightarrow> exn + string list \<times> string list)
    \<Rightarrow> string \<Rightarrow> string \<Rightarrow> 'w \<Rightarrow> (run_result \<times> run_result) option" where
  "run_twice tr digest llm boardId transcript w =
     (case main_flow tr digest llm boardId True transcript w of
        None \<Rightarrow> None
      | Some (r1, w1) \<Rightarrow>
          (case main_flow tr digest llm boardId True transcript w1 of
             None \<Rightarrow> None
           | Some (r2, w2) \<Rightarrow> Some (r1, r2)))"

fun created_and_failed :: "run_result \<Rightarrow> (nat \<times> nat) option" where
  "created_and_failed (Executed pv sm) = Some (sm_created sm, sm_failed sm)"
| "created_and_failed r = None"

fun toCreate :: "run_result \<Rightarrow> (string list \<times> string list) option" where
  "toCreate (Fatal e) = None"
| "toCreate (DryRun pv) = Some (map content (pv_insightsNotes pv), map content (pv_risksNotes pv))"
| "toCreate (Executed pv sm) = Some (map content (pv_insightsNotes pv), map content (pv_risksNotes pv))"

text \<open>
  A board with the frame \<open>1\<close> and one sticky note that is a child of it, and a note the
  main flow would hand to \<open>createSticky\<close> for that frame.
\<close>

definition child_sticky :: board_item where
  "child_sticky = \<lparr>item_id = Some ''2'', item_type = Some ''sticky_note'',
     item_data = Some \<lparr>data_title = None, data_content = Some ''placed by hand''\<rparr>, item_x = Some 0, item_y = Some 0,
     item_w = Some 180, item_h = None, item_parent = Some ''1''\<rparr>"

definition framed_board :: board where
  "framed_board =
     \<lparr>board_items =
        [\<lparr>item_id = Some ''1'', item_type = Some ''frame'',
          item_data = Some \<lparr>data_title = Some ''Insights'', data_content = None\<rparr>, item_x = Some (- 900), item_y = Some 0, item_w = Some 1400,
          item_h = Some 900, item_parent = None\<rparr>, child_sticky],
      board_next = 3\<rparr>"

definition framed_note :: StickySpec where
  "framed_note = (note_at ''Ship on Friday'' (- 1560) (- 410))\<lparr>parentId := Some ''1''\<rparr>"

section \<open>The stdio transport: one tool call (transport-mcp.ts, call)\<close>

text \<open>
  A chunk of the child's standard output is a \<open>Buffer\<close>: a list of bytes, here a
  \<open>string\<close>. A JavaScript string is modelled by the list of its code points.
\<close>

type_synonym js_text = "nat list"

definition ascii :: "string \<Rightarrow> js_text" where
  "ascii s = map of_char s"

text \<open>
  \<open>data.toString()\<close> decodes the bytes of one chunk as UTF-8. A byte that cannot start
  or continue a character, and a character cut short by the end of the chunk, become the
  replacement character U+FFFD. The decoder is the one of the Encoding Standard: between
  characters it is \<open>Idle\<close>; inside one it knows how many bytes are still needed, the
  code point so far and the range allowed for the next byte.
\<close>

datatype utf8_state = Idle | Pending nat nat nat nat

function utf8_decode :: "utf8_state \<Rightarrow> nat list \<Rightarrow> js_text" where
  "utf8_decode Idle [] = []"
| "utf8_decode (Pending n cp lo hi) [] = [0xFFFD]"
| "utf8_decode Idle (b # bs) =
     (if b \<le> 0x7F then b # utf8_decode Idle bs
      else if 0xC2 \<le> b \<and> b \<le> 0xDF then utf8_decode (Pending 1 (b - 0xC0) 0x80 0xBF) bs
      else if 0xE0 \<le> b \<and> b \<le> 0xEF then
        utf8_decode (Pending 2 (b - 0xE0) (if b = 0xE0 then 0xA0 else 0x80)
                       (if b = 0xED then 0x9F else 0xBF)) bs
      else if 0xF0 \<le> b \<and> b \<le> 0xF4 then
        utf8_decode (Pending 3 (b - 0xF0) (if b = 0xF0 then 0x90 else 0x80)
                       (if b = 0xF4 then 0x8F else 0xBF)) bs
      else 0xFFFD # utf8_decode Idle bs)"
| "utf8_decode (Pending n cp lo hi) (b # bs) =
     (if b < lo \<or> hi < b then 0xFFFD # utf8_decode Idle (b # bs)
      else if n \<le> 1 then (cp * 64 + (b - 0x80)) # utf8_decode Idle bs
      else utf8_decode (Pending (n - 1) (cp * 64 + (b - 0x80)) 0x80 0xBF) bs)"
  by pat_completeness auto
termination
  by (relation "measure (\<lambda>(st, bs). 2 * length bs + (case st of Idle \<Rightarrow> 0 | Pending n cp lo hi \<Rightarrow> 1))")
    auto

definition toString :: "string \<Rightarrow> js_text" where
  "toString data = utf8_decode Idle (map of_char data)"

text \<open>
  JSON values. \<open>JSON.parse\<close> is a library function, a parameter \<open>parse\<close> of the model
  (\<open>None\<close> when it throws a SyntaxError). Reading a property of a value that is not an
  object with that key gives \<open>undefined\<close> (\<open>None\<close>); reading one of \<open>null\<close> throws,
  which the callers of \<open>field\<close> treat apart.
\<close>

datatype json = J_null | J_bool bool | J_num rat | J_str js_text | J_arr "json list"
  | J_obj "(js_text \<times> json) list"

fun field :: "js_text \<Rightarrow> json \<Rightarrow> json option" where
  "field k (J_obj kv) = map_of kv k"
| "field k v = None"

text \<open>\<open>s.split('\n')\<close>, for any separator.\<close>

fun split_on :: "'a \<Rightarrow> 'a list \<Rightarrow> 'a list list" where
  "split_on sep [] = [[]]"
| "split_on sep (c # cs) =
     (if c = sep then [] # split_on sep cs
      else (case split_on sep cs of
              l # ls \<Rightarrow> (c # l) # ls
            | [] \<Rightarrow> [[c]]))"

text \<open>\<open>parts.join('\n')\<close>\<close>

fun join_lines :: "js_text list \<Rightarrow> js_text" where
  "join_lines [] = []"
| "join_lines [s] = s"
| "join_lines (s # t # ts) = s @ [10] @ join_lines (t # ts)"

text \<open>
  \<open>line.trim()\<close> is truthy when the line has a character that is not white space or
  a line terminator.
\<close>

definition js_white :: "nat \<Rightarrow> bool" where
  "js_white c = (c \<in> set [0x09, 0x0A, 0x0B, 0x0C, 0x0D, 0x20, 0xA0, 0x1680, 0x2028, 0x2029,
     0x202F, 0x205F, 0x3000, 0xFEFF] \<or> (0x2000 \<le> c \<and> c \<le> 0x200A))"

definition has_text :: "js_text \<Rightarrow> bool" where
  "has_text line = (\<not> list_all js_white line)"

text \<open>The four characters \<open>"id"\<close>.\<close>

definition id_pattern :: js_text where
  "id_pattern = [0x22, 0x69, 0x64, 0x22]"

text \<open>
  \<open>parseToolResponse\<close>. \<open>now\<close> is the value of \<open>Date.now()\<close> and \<open>rnd\<close> the random
  suffix of a frame id. Reading \<open>args.items\<close> or \<open>args.data\<close> of a \<open>null\<close> argument
  throws, and so does \<open>items.map\<close> when \<open>items\<close> is neither absent nor an array.
\<close>

definition present :: "js_text \<Rightarrow> json \<Rightarrow> (js_text \<times> json) list" where
  "present k v = (case field k v of Some x \<Rightarrow> [(k, x)] | None \<Rightarrow> [])"

definition parseToolResponse :: "(js_text \<Rightarrow> json option) \<Rightarrow> nat \<Rightarrow> js_text \<Rightarrow> js_text \<Rightarrow> js_text \<Rightarrow> json
    \<Rightarrow> exn + json" where
  "parseToolResponse parse now rnd toolName textContent args =
     (if toolName = ascii ''bulk_create_items'' then
        (case args of
           J_null \<Rightarrow> Inl TypeError
         | _ \<Rightarrow>
            (case field (ascii ''items'') args of
               None \<Rightarrow> Inr (J_obj [(ascii ''created'', J_arr [])])
             | Some J_null \<Rightarrow> Inr (J_obj [(ascii ''created'', J_arr [])])
             | Some (J_arr xs) \<Rightarrow>
                 Inr (J_obj [(ascii ''created'',
                   J_arr (map (\<lambda>index.
                       J_obj [(ascii ''id'', J_str (ascii ''mcp_item_'' @ ascii (show_nat now) @
                                 ascii ''_'' @ ascii (show_nat index))),
                              (ascii ''type'', J_str (ascii ''sticky_note''))])
                     [0..<length xs]))])
             | Some other \<Rightarrow> Inl TypeError))
      else if toolName = ascii ''create_frame'' then
        (case args of
           J_null \<Rightarrow> Inl TypeError
         | _ \<Rightarrow>
            Inr (J_obj ([(ascii ''id'', J_str (ascii ''mcp_frame_'' @ ascii (show_nat now) @
                            ascii ''_'' @ rnd)),
                         (ascii ''type'', J_str (ascii ''frame''))] @
                        present (ascii ''data'') args @ present (ascii ''position'') args @
                        present (ascii ''geometry'') args)))
      else if toolName = ascii ''get_frames'' \<or> toolName = ascii ''get_items_in_frame'' then
        Inr (case parse textContent of Some v \<Rightarrow> v | None \<Rightarrow> J_arr [])
      else Inr (J_obj [(ascii ''result'', J_str textContent)]))"

text \<open>
  The text of the content blocks:
  \<open>content.filter((c) => c.type === 'text').map((c) => c.text).join('\n')\<close>. A \<open>null\<close>
  block makes \<open>c.type\<close> throw (\<open>None\<close>). \<open>join\<close> turns \<open>null\<close> and \<open>undefined\<close> into
  the empty string and a string into itself; what it makes of other values is the
  parameter \<open>to_str\<close>.
\<close>

definition text_of_blocks :: "(json \<Rightarrow> js_text) \<Rightarrow> json list \<Rightarrow> js_text option" where
  "text_of_blocks to_str blocks =
     (if J_null \<in> set blocks then None
      else Some (join_lines
        (map (\<lambda>c. case field (ascii ''text'') c of
                      None \<Rightarrow> []
                    | Some J_null \<Rightarrow> []
                    | Some (J_str s) \<Rightarrow> s
                    | Some v \<Rightarrow> to_str v)
           (filter (\<lambda>c. field (ascii ''type'') c = Some (J_str (ascii ''text''))) blocks))))"

text \<open>
  What the handler does with one line: nothing (the line is skipped, or an exception
  thrown before the listener is detached is swallowed by the \<open>catch\<close>), an exception
  thrown after the listener was detached and swallowed as well, or the promise resolved
  with a value (\<open>None\<close> for \<open>undefined\<close>).
\<close>

datatype line_result = NoMatch | Threw | Resolved "json option"

text \<open>The code that runs once \<open>response.id === message.id\<close> held and the listener is off.\<close>

definition decode_response :: "(js_text \<Rightarrow> json option) \<Rightarrow> (json \<Rightarrow> js_text) \<Rightarrow> nat \<Rightarrow> js_text \<Rightarrow> js_text \<Rightarrow> json
    \<Rightarrow> json \<Rightarrow> line_result" where
  "decode_response parse to_str now rnd toolName args response =
     (let result = field (ascii ''result'') response;
          content = (case result of Some r \<Rightarrow> field (ascii ''content'') r | None \<Rightarrow> None)
      in case content of
           Some (J_arr blocks) \<Rightarrow>
             (case text_of_blocks to_str blocks of
                None \<Rightarrow> Threw
              | Some textContent \<Rightarrow>
                  (case parse textContent of
                     Some parsed \<Rightarrow> Resolved (Some parsed)
                   | None \<Rightarrow>
                       (case parseToolResponse parse now rnd toolName textContent args of
                          Inl e \<Rightarrow> Threw
                        | Inr v \<Rightarrow> Resolved (Some v))))
         | _ \<Rightarrow> Resolved result)"

text \<open>The body of \<open>for (const line of lines)\<close> for one line.\<close>

definition handle_line :: "(js_text \<Rightarrow> json option) \<Rightarrow> (json \<Rightarrow> js_text) \<Rightarrow> nat \<Rightarrow> js_text \<Rightarrow> js_text \<Rightarrow> json
    \<Rightarrow> nat \<Rightarrow> js_text \<Rightarrow> line_result" where
  "handle_line parse to_str now rnd toolName args msgId line =
     (if has_text line \<and> js_includes line id_pattern then
        (case parse line of
           None \<Rightarrow> NoMatch
         | Some J_null \<Rightarrow> NoMatch
         | Some response \<Rightarrow>
             if field (ascii ''id'') response = Some (J_num (of_nat msgId))
             then decode_response parse to_str now rnd toolName args response
             else NoMatch)
      else NoMatch)"

text \<open>
  The state of a pending call: the text accumulated in \<open>responseData\<close>, whether the
  \<open>data\<close> listener is still attached, and how the promise was settled, if it was.
\<close>

record call_state =
  responseData :: js_text
  listening :: bool
  settled :: "(exn + json option) option"

definition pending_call :: call_state where
  "pending_call = \<lparr>responseData = [], listening = True, settled = None\<rparr>"

text \<open>Resolving or rejecting a promise that is already settled does nothing.\<close>

definition settle :: "exn + json option \<Rightarrow> call_state \<Rightarrow> call_state" where
  "settle v st = (case settled st of None \<Rightarrow> st\<lparr>settled := Some v\<rparr> | Some old \<Rightarrow> st)"

text \<open>
  The loop over the lines. After a swallowed exception it goes on with the next line,
  the listener detached; a resolving line ends it (\<open>return\<close>).
\<close>

fun scan_lines :: "(js_text \<Rightarrow> line_result) \<Rightarrow> call_state \<Rightarrow> js_text list \<Rightarrow> call_state" where
  "scan_lines h st [] = st"
| "scan_lines h st (line # ls) =
     (case h line of
        NoMatch \<Rightarrow> scan_lines h st ls
      | Threw \<Rightarrow> scan_lines h (st\<lparr>listening := False\<rparr>) ls
      | Resolved v \<Rightarrow> settle (Inr v) (st\<lparr>listening := False\<rparr>))"

text \<open>\<open>onData\<close>: a chunk is delivered only while the listener is attached.\<close>

definition onData :: "(js_text \<Rightarrow> line_result) \<Rightarrow> call_state \<Rightarrow> string \<Rightarrow> call_state" where
  "onData h st data =
     (if \<not> listening st then st
      else (let buf = responseData st @ toString data
            in scan_lines h (st\<lparr>responseData := buf\<rparr>) (split_on 10 buf)))"

text \<open>The timeout of 10 seconds detaches the listener and rejects.\<close>

definition onTimeout :: "call_state \<Rightarrow> call_state" where
  "onTimeout st = settle (Inl (plain_error ''Tool call timeout'')) (st\<lparr>listening := False\<rparr>)"

text \<open>A pending call that receives the given chunks, one \<open>data\<close> event each.\<close>

definition receive :: "(js_text \<Rightarrow> line_result) \<Rightarrow> string list \<Rightarrow> call_state" where
  "receive h chunks = foldl (onData h) pending_call chunks"

text \<open>
  A response line whose text has a character of two bytes, cut between those bytes:
  \<open>{"id":1,"result":"caf\<close>, the byte C3, and then the byte A9 and \<open>"}\<close> with the
  newline.
\<close>

definition chunk1 :: string where
  "chunk1 = ''{'' @ [CHR 0x22] @ ''id'' @ [CHR 0x22] @ '':1,'' @ [CHR 0x22] @ ''result'' @
     [CHR 0x22] @ '':'' @ [CHR 0x22] @ ''caf'' @ [CHR 0xC3]"

definition chunk2 :: string where
  "chunk2 = [CHR 0xA9, CHR 0x22] @ ''}'' @ [CHR 0x0A]"

text \<open>The line with the text \<open>t\<close> as its result, and the value it parses to.\<close>

definition result_line :: "js_text \<Rightarrow> js_text" where
  "result_line t = ascii ''{'' @ [0x22] @ ascii ''id'' @ [0x22] @ ascii '':1,'' @ [0x22] @
     ascii ''result'' @ [0x22] @ ascii '':'' @ [0x22] @ t @ [0x22] @ ascii ''}''"

definition result_value :: "js_text \<Rightarrow> json" where
  "result_value t = J_obj [(ascii ''id'', J_num 1), (ascii ''result'', J_str t)]"

text \<open>A parser that knows the lines \<open>result_line t\<close> for the two texts, and no other.\<close>

definition two_line_parse :: "js_text \<Rightarrow> json option" where
  "two_line_parse s =
     (if s = result_line (ascii ''caf'' @ [0xE9]) then Some (result_value (ascii ''caf'' @ [0xE9]))
      else if s = result_line (ascii ''caf'' @ [0xFFFD, 0xFFFD])
      then Some (result_value (ascii ''caf'' @ [0xFFFD, 0xFFFD]))
      else None)"

section \<open>A failure reported by the child process\<close>

text \<open>
  The value \<open>undefined\<close> as \<open>bulkCreateStickies\<close> reads it, and the replies of a
  child process to five create calls, the third of them resolved with \<open>undefined\<close>.
\<close>

definition undefined_reply :: mcp_value where
  "undefined_reply = \<lparr>v_id = JUndefined, v_result = JUndefined\<rparr>"

definition error_replies :: "(exn + mcp_value) list" where
  "error_replies =
     [Inr (id_reply ''101''),
      Inr \<lparr>v_id = JUndefined, v_result = JStr ''Created sticky note 102 on board b''\<rparr>,
      Inr undefined_reply,
      Inr (id_reply ''104''),
      Inr (id_reply ''105'')]"

text \<open>
  The answer of the child process to the call with the message id 4 when the tool
  failed: the JSON-RPC error
  \<open>{"jsonrpc":"2.0","id":4,"error":{"code":-32603,"message":"Miro API error"}}\<close>, as
  the text of the line, as the bytes of the chunk that ends with the newline, and as the
  value the line parses to; and a parser that knows this line and no other.
\<close>

definition error_line :: js_text where
  "error_line = ascii ''{'' @ [0x22] @ ascii ''jsonrpc'' @ [0x22] @ ascii '':'' @ [0x22] @
     ascii ''2.0'' @ [0x22] @ ascii '','' @ id_pattern @ ascii '':4,'' @ [0x22] @ ascii ''error'' @
     [0x22] @ ascii '':{'' @ [0x22] @ ascii ''code'' @ [0x22] @ ascii '':-32603,'' @ [0x22] @
     ascii ''message'' @ [0x22] @ ascii '':'' @ [0x22] @ ascii ''Miro API error'' @ [0x22] @
     ascii ''}}''"

definition error_chunk :: string where
  "error_chunk = ''{'' @ [CHR 0x22] @ ''jsonrpc'' @ [CHR 0x22] @ '':'' @ [CHR 0x22] @
     ''2.0'' @ [CHR 0x22] @ '','' @ [CHR 0x22] @ ''id'' @ [CHR 0x22] @ '':4,'' @ [CHR 0x22] @ ''error'' @
     [CHR 0x22] @ '':{'' @ [CHR 0x22] @ ''code'' @ [CHR 0x22] @ '':-32603,'' @ [CHR 0x22] @
     ''message'' @ [CHR 0x22] @ '':'' @ [CHR 0x22] @ ''Miro API error'' @ [CHR 0x22] @
     ''}}'' @ [CHR 0x0A]"

definition error_envelope :: json where
  "error_envelope =
     J_obj [(ascii ''jsonrpc'', J_str (ascii ''2.0'')), (ascii ''id'', J_num 4),
            (ascii ''error'', J_obj [(ascii ''code'', J_num (- 32603)),
                                      (ascii ''message'', J_str (ascii ''Miro API error''))])]"

definition error_parse :: "js_text \<Rightarrow> json option" where
  "error_parse s = (if s = error_line then Some error_envelope else None)"

section \<open>Properties of the retry wrapper\<close>

lemmas backoff_loop_unfold = backoff_loop.simps

declare backoff_loop.simps [simp del]

lemma delay_step:
  "min (min (500 * 2 ^ i) 8000 * 2) (8000::nat) = min (500 * 2 ^ Suc i) 8000"
  by simp

text \<open>
  The general shape of a run: when the attempts before the \<open>k\<close>-th all throw errors that
  are retried, and the \<open>k\<close>-th attempt returns, throws a fail-fast error or is the last
  one allowed, the wrapper ends at attempt \<open>k\<close> with that attempt's outcome, having slept
  the remaining delays of the schedule.
\<close>

lemma backoff_loop_run:
  assumes "j \<le> n" and "a + j \<le> m" and "1 \<le> a"
    and "\<forall>i<j. retried (fst (fn (state_after fn i s)))"
    and "\<not> retried (fst (fn (state_after fn j s))) \<or> a + j = m"
  shows "backoff_loop fn m a (min (500 * 2 ^ d) 8000) e s sl =
           \<lparr>outcome = fst (fn (state_after fn j s)),
            final_state = state_after fn (Suc j) s,
            slept = sl @ map (\<lambda>i. min (500 * 2 ^ i) 8000) [d..<d + j],
            attempts = a + j\<rparr>"
  using assms
proof (induction j arbitrary: a d e s sl n)
  case 0
  obtain r s' where fs: "fn s = (r, s')" by (cases "fn s")
  from 0 fs have stop: "\<not> retried r \<or> a = m" by simp
  from 0 have le: "a \<le> m" by simp
  show ?case
  proof (cases r)
    case (Inr v)
    with fs le show ?thesis
      by (subst backoff_loop_unfold) simp
  next
    case (Inl err)
    with fs le stop show ?thesis
      by (subst backoff_loop_unfold) (auto simp: retried_def)
  qed
next
  case (Suc j)
  obtain r s' where fs: "fn s = (r, s')" by (cases "fn s")
  from Suc.prems(4) have "retried (fst (fn (state_after fn 0 s)))" by blast
  with fs have r: "retried r" by simp
  then obtain err where err: "r = Inl err" "\<not> fail_fast err"
    by (cases r) (auto simp: retried_def)
  from Suc.prems have lt: "a < m" by simp
  have later: "\<forall>i<j. retried (fst (fn (state_after fn i s')))"
  proof (intro allI impI)
    fix i assume "i < j"
    then have "retried (fst (fn (state_after fn (Suc i) s)))"
      using Suc.prems(4) by (meson Suc_mono)
    with fs show "retried (fst (fn (state_after fn i s')))" by simp
  qed
  have stop: "\<not> retried (fst (fn (state_after fn j s'))) \<or> Suc a + j = m"
    using Suc.prems(5) fs by simp
  have step: "backoff_loop fn m a (min (500 * 2 ^ d) 8000) e s sl =
      backoff_loop fn m (Suc a) (min (500 * 2 ^ Suc d) 8000) err s' (sl @ [min (500 * 2 ^ d) 8000])"
    using fs err lt by (subst backoff_loop_unfold) (simp add: delay_step del: power_Suc)
  have ih: "backoff_loop fn m (Suc a) (min (500 * 2 ^ Suc d) 8000) err s'
        (sl @ [min (500 * 2 ^ d) 8000]) =
      \<lparr>outcome = fst (fn (state_after fn j s')),
       final_state = state_after fn (Suc j) s',
       slept = (sl @ [min (500 * 2 ^ d) 8000]) @ map (\<lambda>i. min (500 * 2 ^ i) 8000) [Suc d..<Suc d + j],
       attempts = Suc a + j\<rparr>"
    using Suc.prems later stop by (intro Suc.IH[where n = j]) simp_all
  have "[d..<d + Suc j] = d # [Suc d..<Suc d + j]"
    by (simp add: upt_conv_Cons)
  with step ih fs show ?case by simp
qed

lemma backoff_run:
  assumes "k < n"
    and "\<forall>i<k. retried (fst (fn (state_after fn i s)))"
    and "\<not> retried (fst (fn (state_after fn k s))) \<or> Suc k = n"
  shows "backoff fn n s =
           \<lparr>outcome = fst (fn (state_after fn k s)),
            final_state = state_after fn (Suc k) s,
            slept = delays k,
            attempts = Suc k\<rparr>"
proof -
  have "backoff_loop fn n 1 (min (500 * 2 ^ 0) 8000) Undefined s [] =
      \<lparr>outcome = fst (fn (state_after fn k s)),
       final_state = state_after fn (Suc k) s,
       slept = [] @ map (\<lambda>i. min (500 * 2 ^ i) 8000) [0..<0 + k],
       attempts = 1 + k\<rparr>"
    using assms by (intro backoff_loop_run[where n = k]) simp_all
  then show ?thesis by (simp add: backoff_def delays_def)
qed

lemma delays_4: "delays 4 = [500, 1000, 2000, 4000]"
  by (simp add: delays_def upt_conv_Cons)

text \<open>The loop decides as the specification's words do.\<close>

lemma fail_fast_carries: "fail_fast e \<longleftrightarrow> carries e 401 \<or> carries e 403"
  by (cases e) (auto simp: fail_fast_def js_or_def)

lemma retried_other_error: "retried r = other_error r"
  by (simp add: retried_def other_error_def fail_fast_carries split: sum.splits)

text \<open>
  C6. With the default of 5 attempts: when the operation throws an error that carries
  the status 401 or 403, the wrapper rethrows that error at the first attempt, without a
  sleep and without a second attempt. When all five attempts throw other errors, the
  wrapper sleeps 500, 1000, 2000 and 4000 ms between them and rethrows the error of the
  fifth attempt. In general, for any number \<open>n\<close> of allowed attempts, a run whose first
  \<open>k\<close> attempts throw other errors ends at attempt \<open>k + 1\<close>, when that attempt returns,
  throws an error carrying 401 or 403, or is the last one allowed, with that attempt's
  outcome and after the first \<open>k\<close> delays of the schedule 500, 1000, 2000, 4000, 8000,
  8000, ...
\<close>

theorem backoff_policy:
  fixes fn :: "'s \<Rightarrow> (exn + 'a) \<times> 's"
  shows "(fn s = (Inl e, s') \<and> (carries e 401 \<or> carries e 403) \<longrightarrow>
            backoff fn 5 s = \<lparr>outcome = Inl e, final_state = s', slept = [], attempts = 1\<rparr>) \<and>
         ((\<forall>i<5. other_error (fst (fn (state_after fn i s)))) \<longrightarrow>
            backoff fn 5 s =
              \<lparr>outcome = fst (fn (state_after fn 4 s)), final_state = state_after fn 5 s,
               slept = [500, 1000, 2000, 4000], attempts = 5\<rparr>) \<and>
         (k < n \<and> (\<forall>i<k. other_error (fst (fn (state_after fn i s)))) \<and>
            (\<not> other_error (fst (fn (state_after fn k s))) \<or> Suc k = n) \<longrightarrow>
            backoff fn n s =
              \<lparr>outcome = fst (fn (state_after fn k s)), final_state = state_after fn (Suc k) s,
               slept = delays k, attempts = Suc k\<rparr>)"
proof (intro conjI impI)
  assume a: "fn s = (Inl e, s') \<and> (carries e 401 \<or> carries e 403)"
  then have "\<not> retried (fst (fn (state_after fn 0 s)))"
    by (simp add: retried_def fail_fast_carries)
  then have "backoff fn 5 s =
      \<lparr>outcome = fst (fn (state_after fn 0 s)), final_state = state_after fn (Suc 0) s,
       slept = delays 0, attempts = Suc 0\<rparr>"
    by (intro backoff_run) simp_all
  with a show "backoff fn 5 s = \<lparr>outcome = Inl e, final_state = s', slept = [], attempts = 1\<rparr>"
    by (simp add: delays_def)
next
  assume "\<forall>i<5. other_error (fst (fn (state_after fn i s)))"
  then have "backoff fn 5 s =
      \<lparr>outcome = fst (fn (state_after fn 4 s)), final_state = state_after fn (Suc 4) s,
       slept = delays 4, attempts = Suc 4\<rparr>"
    by (intro backoff_run) (simp_all add: retried_other_error)
  then show "backoff fn 5 s =
      \<lparr>outcome = fst (fn (state_after fn 4 s)), final_state = state_after fn 5 s,
       slept = [500, 1000, 2000, 4000], attempts = 5\<rparr>"
    by (simp add: delays_4)
next
  assume "k < n \<and> (\<forall>i<k. other_error (fst (fn (state_after fn i s)))) \<and>
    (\<not> other_error (fst (fn (state_after fn k s))) \<or> Suc k = n)"
  then show "backoff fn n s =
      \<lparr>outcome = fst (fn (state_after fn k s)), final_state = state_after fn (Suc k) s,
       slept = delays k, attempts = Suc k\<rparr>"
    by (intro backoff_run) (simp_all add: retried_other_error)
qed

lemma state_after_numeral:
  "state_after fn (numeral k) s = state_after fn (pred_numeral k) (snd (fn s))"
  by (simp add: numeral_eq_Suc)

lemma replicate_6: "replicate 6 x = [x, x, x, x, x, x]"
  by (simp add: numeral_eq_Suc)

text \<open>
  Runs of scripted operations: an error with status 401, one with status 403 and one
  with the code 403 and no status, each followed by a success that is never reached; six
  errors with status 429 under the default of 5 attempts; and the same six errors
  followed by a success under 9 attempts.
\<close>

theorem backoff_policy_witness:
  "backoff scripted 5 [Inl (status_error ''unauthorized'' 401), Inr (7::nat)] =
     \<lparr>outcome = Inl (status_error ''unauthorized'' 401), final_state = [Inr 7],
      slept = [], attempts = 1\<rparr> \<and>
   backoff scripted 5 [Inl (status_error ''forbidden'' 403), Inr (7::nat)] =
     \<lparr>outcome = Inl (status_error ''forbidden'' 403), final_state = [Inr 7],
      slept = [], attempts = 1\<rparr> \<and>
   backoff scripted 5 [Inl (code_error ''forbidden'' 403), Inr (7::nat)] =
     \<lparr>outcome = Inl (code_error ''forbidden'' 403), final_state = [Inr 7],
      slept = [], attempts = 1\<rparr> \<and>
   backoff scripted 5 (replicate 6 (Inl (status_error ''busy'' 429) :: exn + nat)) =
     \<lparr>outcome = Inl (status_error ''busy'' 429),
      final_state = [Inl (status_error ''busy'' 429)],
      slept = [500, 1000, 2000, 4000], attempts = 5\<rparr> \<and>
   backoff scripted 9 (replicate 6 (Inl (status_error ''busy'' 429)) @ [Inr (7::nat)]) =
     \<lparr>outcome = Inr 7, final_state = [],
      slept = [500, 1000, 2000, 4000, 8000, 8000], attempts = 7\<rparr>"
proof -
  let ?busy = "Inl (status_error ''busy'' 429) :: exn + nat"
  have c1: "carries (status_error ''unauthorized'' 401) 401"
    and c2: "carries (status_error ''forbidden'' 403) 403"
    and c3: "carries (code_error ''forbidden'' 403) 403"
    and nf: "other_error ?busy"
    by (simp_all add: status_error_def code_error_def other_error_def)
  have lt5: "\<And>i. i < (5::nat) \<longleftrightarrow> i = 0 \<or> i = 1 \<or> i = 2 \<or> i = 3 \<or> i = 4"
    by auto
  have lt6: "\<And>i. i < (6::nat) \<longleftrightarrow> i = 0 \<or> i = 1 \<or> i = 2 \<or> i = 3 \<or> i = 4 \<or> i = 5"
    by auto
  have d6: "delays 6 = [500, 1000, 2000, 4000, 8000, 8000]"
    by (simp add: delays_def upt_conv_Cons)
  have 1: "backoff scripted 5 [Inl (status_error ''unauthorized'' 401), Inr (7::nat)] =
     \<lparr>outcome = Inl (status_error ''unauthorized'' 401), final_state = [Inr 7],
      slept = [], attempts = 1\<rparr>"
    using backoff_policy[of scripted "[Inl (status_error ''unauthorized'' 401), Inr (7::nat)]"
        "status_error ''unauthorized'' 401" "[Inr 7]" 0 1] c1
    by simp
  have b1: "backoff scripted 5 [Inl (status_error ''forbidden'' 403), Inr (7::nat)] =
     \<lparr>outcome = Inl (status_error ''forbidden'' 403), final_state = [Inr 7],
      slept = [], attempts = 1\<rparr>"
    using backoff_policy[of scripted "[Inl (status_error ''forbidden'' 403), Inr (7::nat)]"
        "status_error ''forbidden'' 403" "[Inr 7]" 0 1] c2
    by simp
  have c1x: "backoff scripted 5 [Inl (code_error ''forbidden'' 403), Inr (7::nat)] =
     \<lparr>outcome = Inl (code_error ''forbidden'' 403), final_state = [Inr 7],
      slept = [], attempts = 1\<rparr>"
    using backoff_policy[of scripted "[Inl (code_error ''forbidden'' 403), Inr (7::nat)]"
        "code_error ''forbidden'' 403" "[Inr 7]" 0 1] c3
    by simp
  have 2: "backoff scripted 5 (replicate 6 ?busy) =
     \<lparr>outcome = ?busy, final_state = [?busy],
      slept = [500, 1000, 2000, 4000], attempts = 5\<rparr>"
    using backoff_policy[of scripted "replicate 6 ?busy" Undefined "[]" 0 1] nf
    by (simp add: replicate_6 lt5 state_after_numeral)
  have 3: "backoff scripted 9 (replicate 6 ?busy @ [Inr 7]) =
     \<lparr>outcome = Inr 7, final_state = [],
      slept = [500, 1000, 2000, 4000, 8000, 8000], attempts = 7\<rparr>"
    using backoff_policy[of scripted "replicate 6 ?busy @ [Inr 7]" Undefined "[]" 6 9] nf
    by (simp add: replicate_6 lt6 d6 state_after_numeral other_error_def)
  from 1 b1 c1x 2 3 show ?thesis by simp
qed

section \<open>Properties of the layout\<close>





section \<open>Properties of the delta\<close>

lemma decorate_includes_marker: "js_includes (decorate runId s) (marker runId)"
  unfolding js_includes_def decorate_def sublist_def
  by (rule exI[of _ "s @ [CHR 0x0A, CHR 0x0A]"], rule exI[of _ "[]"]) simp

lemma decorate_inj_id:
  assumes "decorate old t = decorate cur t'" and "length old = length cur"
  shows "old = cur"
proof -
  have "(t @ [CHR 0x0A, CHR 0x0A] @ ''[runId:'') @ (old @ '']'') =
        (t' @ [CHR 0x0A, CHR 0x0A] @ ''[runId:'') @ (cur @ '']'')"
    using assms(1) by (simp add: decorate_def marker_def)
  moreover have "length (old @ '']'') = length (cur @ '']'')"
    using assms(2) by simp
  ultimately have "old @ '']'' = cur @ '']''"
    by (meson append_eq_append_conv)
  then show ?thesis by simp
qed

lemma skip_set_iff:
  "s \<in> skip_set runId existing \<longleftrightarrow>
     (\<exists>n \<in> set existing. item_content n = Some s \<and> js_includes s (marker runId))"
  by (auto simp: skip_set_def hasRunId_def split: option.splits) force

lemma skip_set_Nil: "skip_set runId [] = {}"
  by (simp add: skip_set_def)

lemma to_create_iff:
  "s \<in> set (to_create cur existing bullets) \<longleftrightarrow>
     s \<in> set bullets \<and> \<not> (\<exists>m \<in> set existing. hasRunId cur m \<and> item_content m = Some s)"
  by (fastforce simp: to_create_def skip_set_iff hasRunId_def)

text \<open>
  C8. Run identifiers are the first 10 hexadecimal digits of a digest, so two of them
  have the same length. An existing item \<open>n\<close> decorated under another run identifier
  changes nothing in the delta of the current run, whatever its text: the items to create
  are the same with and without it on the board. A decorated item is left out only when
  an existing item that carries the current marker has exactly its content.
\<close>

theorem delta_ignores_other_runs:
  assumes "old \<noteq> cur" and "length old = length cur"
    and "item_content n = Some (decorate old t)"
  shows "to_create cur (xs @ n # ys) (map (decorate cur) texts) =
           to_create cur (xs @ ys) (map (decorate cur) texts) \<and>
         (s \<in> set (to_create cur existing bullets) \<longleftrightarrow>
           s \<in> set bullets \<and>
           \<not> (\<exists>m \<in> set existing. hasRunId cur m \<and> item_content m = Some s))"
proof -
  have "decorate cur u \<in> skip_set cur (xs @ n # ys) \<longleftrightarrow>
        decorate cur u \<in> skip_set cur (xs @ ys)" for u
    using assms decorate_inj_id[of old t cur u] by (auto simp: skip_set_iff)
  then have "to_create cur (xs @ n # ys) (map (decorate cur) texts) =
      to_create cur (xs @ ys) (map (decorate cur) texts)"
    by (simp add: to_create_def filter_map comp_def)
  then show ?thesis by (simp only: to_create_iff)
qed

text \<open>
  The same text \<open>a\<close> decorated by an earlier run is on the board: the current run still
  creates its own note for \<open>a\<close>.
\<close>

theorem delta_ignores_other_runs_witness:
  "to_create ''abcdef0123'' [sticky_item (decorate ''0123456789'' ''a'')]
     (map (decorate ''abcdef0123'') [''a'']) = [decorate ''abcdef0123'' ''a'']"
  using delta_ignores_other_runs[of "''0123456789''" "''abcdef0123''"
      "sticky_item (decorate ''0123456789'' ''a'')" "''a''" "[]" "[]" "[''a'']"]
  by (simp add: sticky_item_def item_content_def to_create_def skip_set_Nil)

section \<open>Properties of batch creation\<close>

lemma backoff_first_return:
  assumes "fn s = (Inr v, s')" and "0 < n"
  shows "backoff fn n s = \<lparr>outcome = Inr v, final_state = s', slept = [], attempts = 1\<rparr>"
proof -
  have "\<not> retried (fst (fn (state_after fn 0 s)))"
    using assms(1) by (simp add: retried_def)
  then have "backoff fn n s =
      \<lparr>outcome = fst (fn (state_after fn 0 s)), final_state = state_after fn (Suc 0) s,
       slept = delays 0, attempts = Suc 0\<rparr>"
    using assms(2) by (intro backoff_run) simp_all
  with assms(1) show ?thesis by (simp add: delays_def)
qed

lemma rest_create_chunk_append:
  "rest_create_chunk net b (xs @ ys) acc = rest_create_chunk net b ys (rest_create_chunk net b xs acc)"
  by (simp add: rest_create_chunk_def)

lemma rest_chunks_closed:
  assumes "0 < chunkSize"
  shows "rest_chunks net b notes chunkSize i acc = Some (rest_create_chunk net b (drop i notes) acc)"
proof (induction "length notes - i" arbitrary: i acc rule: less_induct)
  case less
  show ?case
  proof (cases "i < length notes")
    case True
    have "length notes - (i + chunkSize) < length notes - i"
      using True assms by simp
    then have ih: "rest_chunks net b notes chunkSize (i + chunkSize)
          (rest_create_chunk net b (take chunkSize (drop i notes)) acc) =
        Some (rest_create_chunk net b (drop (i + chunkSize) notes)
          (rest_create_chunk net b (take chunkSize (drop i notes)) acc))"
      by (rule less)
    have "drop (i + chunkSize) notes = drop chunkSize (drop i notes)"
      by (simp add: add.commute)
    then have "drop i notes = take chunkSize (drop i notes) @ drop (i + chunkSize) notes"
      by (simp only: append_take_drop_id)
    then have "rest_create_chunk net b (drop i notes) acc =
        rest_create_chunk net b (drop (i + chunkSize) notes)
          (rest_create_chunk net b (take chunkSize (drop i notes)) acc)"
      by (metis rest_create_chunk_append)
    with ih True show ?thesis
      by (subst rest_chunks.simps) simp
  next
    case False
    then show ?thesis
      by (subst rest_chunks.simps) (simp add: rest_create_chunk_def)
  qed
qed

lemma bulk_closed:
  "0 < chunkSize \<Longrightarrow> bulkCreateStickies net b notes chunkSize w =
     Some (foldl (rest_create_one net b) (empty_result, w) notes)"
  by (simp add: bulkCreateStickies_def rest_chunks_closed rest_create_chunk_def)

text \<open>With a chunk size of 0 and a note to create, the loop does not return.\<close>

lemma rest_chunks_never_returns:
  assumes "rest_chunks net b ns chunkSize i acc = Some r"
  shows "\<not> (chunkSize = 0 \<and> i < length ns)"
proof (rule rest_chunks.raw_induct[where P = "\<lambda>net b ns cs i acc r. \<not> (cs = 0 \<and> i < length ns)",
        OF _ assms], goal_cases)
  case (1 f net' b' ns' cs i' acc' r')
  show ?case
  proof
    assume a: "cs = 0 \<and> i' < length ns'"
    with 1(2) have "f net' b' ns' cs (i' + cs)
        (rest_create_chunk net' b' (take cs (drop i' ns')) acc') = Some r'"
      by simp
    from 1(1)[OF this] a show False by simp
  qed
qed

lemma bulkCreateStickies_chunk_0:
  "ns \<noteq> [] \<Longrightarrow> bulkCreateStickies net b ns 0 w = None"
  using rest_chunks_never_returns[of net b ns 0 0 "(empty_result, w)"]
  by (cases "bulkCreateStickies net b ns 0 w") (auto simp: bulkCreateStickies_def)

lemma rest_create_one_snd:
  "snd (rest_create_one net b (res, w) n) = snd (createSticky net b n w)"
  by (simp add: rest_create_one_def Let_def split: prod.splits sum.splits payload.splits)

lemma mcp_create_one_snd:
  "snd (mcp_create_one rpc b tool (res, t) n) =
     snd (mcp_call rpc tool (sticky_args b n) t)"
  by (simp add: mcp_create_one_def Let_def split: prod.splits sum.splits option.splits)

lemma returned_Cons:
  "returned ((n, r) # os) = (case r of Inl e \<Rightarrow> [] | Inr v \<Rightarrow> [(n, v)]) @ returned os"
  by (simp add: returned_def)

lemma thrown_Cons:
  "thrown ((n, r) # os) = (case r of Inl e \<Rightarrow> [(n, e)] | Inr v \<Rightarrow> []) @ thrown os"
  by (simp add: thrown_def)

lemma rest_failed_Cons:
  "rest_failed ((n, r) # os) =
     (case r of Inl e \<Rightarrow> [(n, e)] | Inr PNull \<Rightarrow> [(n, TypeError)] | Inr (PItem it) \<Rightarrow> []
      | Inr (PPage xs) \<Rightarrow> []) @ rest_failed os"
  by (simp add: rest_failed_def)

lemma rest_created_Cons:
  "rest_created ((n, r) # os) =
     (case r of Inl e \<Rightarrow> [] | Inr PNull \<Rightarrow> [] | Inr (PItem it) \<Rightarrow> [id_value it]
      | Inr (PPage xs) \<Rightarrow> [JUndefined]) @ rest_created os"
  by (simp add: rest_created_def)

lemma rest_fold_char:
  "\<exists>w'. foldl (rest_create_one net b) (res, w) ns =
     (res\<lparr>ok := ok res + length (returned (rest_outcomes net b ns w)),
          created := created res @ rest_created (rest_outcomes net b ns w),
          failed := failed res @ rest_failed (rest_outcomes net b ns w)\<rparr>, w')"
proof (induction ns arbitrary: res w)
  case Nil
  then show ?case by (simp add: returned_def rest_created_def rest_failed_def)
next
  case (Cons n ms)
  obtain r w1 where c: "createSticky net b n w = (r, w1)" by (cases "createSticky net b n w")
  define res1 where "res1 = fst (rest_create_one net b (res, w) n)"
  have s: "rest_create_one net b (res, w) n = (res1, w1)"
    using c rest_create_one_snd[of net b res w n] by (simp add: res1_def prod_eq_iff)
  from Cons.IH[of res1 w1] obtain w' where
    ih: "foldl (rest_create_one net b) (res1, w1) ms =
      (res1\<lparr>ok := ok res1 + length (returned (rest_outcomes net b ms w1)),
          created := created res1 @ rest_created (rest_outcomes net b ms w1),
          failed := failed res1 @ rest_failed (rest_outcomes net b ms w1)\<rparr>, w')" by blast
  have step: "foldl (rest_create_one net b) (res, w) (n # ms) =
      foldl (rest_create_one net b) (res1, w1) ms"
    by (simp add: s)
  have os: "rest_outcomes net b (n # ms) w = (n, r) # rest_outcomes net b ms w1"
    by (simp add: c)
  have r1: "res1 = (case r of
        Inl e \<Rightarrow> res\<lparr>failed := failed res @ [(n, e)]\<rparr>
      | Inr PNull \<Rightarrow> res\<lparr>ok := ok res + 1, failed := failed res @ [(n, TypeError)]\<rparr>
      | Inr (PItem it) \<Rightarrow> res\<lparr>ok := ok res + 1, created := created res @ [id_value it]\<rparr>
      | Inr (PPage xs) \<Rightarrow> res\<lparr>ok := ok res + 1, created := created res @ [JUndefined]\<rparr>)"
    using c by (simp add: res1_def rest_create_one_def Let_def split: sum.splits payload.splits)
  have "foldl (rest_create_one net b) (res, w) (n # ms) =
     (res\<lparr>ok := ok res + length (returned (rest_outcomes net b (n # ms) w)),
          created := created res @ rest_created (rest_outcomes net b (n # ms) w),
          failed := failed res @ rest_failed (rest_outcomes net b (n # ms) w)\<rparr>, w')"
    apply (simp only: step ih os returned_Cons rest_failed_Cons rest_created_Cons)
    apply (simp add: r1 split: sum.splits payload.splits)
    done
  then show ?case by blast
qed

lemma mcp_fold_char:
  "\<exists>t'. foldl (mcp_create_one rpc b tool) (res, t) ns =
     (res\<lparr>ok := ok res + length (returned (mcp_outcomes rpc b tool ns t)),
          created := created res @
            List.map_filter (\<lambda>(n, v). pushed_id v) (returned (mcp_outcomes rpc b tool ns t)),
          failed := failed res @ thrown (mcp_outcomes rpc b tool ns t)\<rparr>, t')"
proof (induction ns arbitrary: res t)
  case Nil
  then show ?case by (simp add: returned_def thrown_def List.map_filter_simps)
next
  case (Cons n ms)
  let ?args = "sticky_args b n"
  obtain r t1 where c: "mcp_call rpc tool ?args t = (r, t1)" by (cases "mcp_call rpc tool ?args t")
  define res1 where "res1 = fst (mcp_create_one rpc b tool (res, t) n)"
  have s: "mcp_create_one rpc b tool (res, t) n = (res1, t1)"
    using c mcp_create_one_snd[of rpc b tool res t n] by (simp add: res1_def prod_eq_iff)
  from Cons.IH[of res1 t1] obtain t' where
    ih: "foldl (mcp_create_one rpc b tool) (res1, t1) ms =
     (res1\<lparr>ok := ok res1 + length (returned (mcp_outcomes rpc b tool ms t1)),
          created := created res1 @
            List.map_filter (\<lambda>(n, v). pushed_id v) (returned (mcp_outcomes rpc b tool ms t1)),
          failed := failed res1 @ thrown (mcp_outcomes rpc b tool ms t1)\<rparr>, t')" by blast
  have step: "foldl (mcp_create_one rpc b tool) (res, t) (n # ms) =
      foldl (mcp_create_one rpc b tool) (res1, t1) ms"
    by (simp add: s)
  have os: "mcp_outcomes rpc b tool (n # ms) t = (n, r) # mcp_outcomes rpc b tool ms t1"
    by (simp add: c)
  have r1: "res1 = (case r of
        Inl e \<Rightarrow> res\<lparr>failed := failed res @ [(n, e)]\<rparr>
      | Inr v \<Rightarrow> (case pushed_id v of
          Some i \<Rightarrow> res\<lparr>ok := ok res + 1, created := created res @ [i]\<rparr>
        | None \<Rightarrow> res\<lparr>ok := ok res + 1\<rparr>))"
    using c by (simp add: res1_def mcp_create_one_def Let_def split: sum.splits option.splits)
  have "foldl (mcp_create_one rpc b tool) (res, t) (n # ms) =
     (res\<lparr>ok := ok res + length (returned (mcp_outcomes rpc b tool (n # ms) t)),
          created := created res @
            List.map_filter (\<lambda>(n, v). pushed_id v) (returned (mcp_outcomes rpc b tool (n # ms) t)),
          failed := failed res @ thrown (mcp_outcomes rpc b tool (n # ms) t)\<rparr>, t')"
    apply (simp only: step ih os returned_Cons thrown_Cons)
    apply (simp add: r1 List.map_filter_simps split: sum.splits option.splits)
    done
  then show ?case by blast
qed

lemma miro_call_first:
  assumes "net (srv w) req = (Inr resp, s')"
  shows "miro_call net req w =
     (if \<not> resp_ok resp then Inl (http_error req resp)
      else (case resp_json resp of None \<Rightarrow> Inl (plain_error ''SyntaxError'') | Some p \<Rightarrow> Inr p),
      w\<lparr>srv := s', calls := calls w @ [req]\<rparr>)"
proof -
  have "fetch net req w = (Inr resp, w\<lparr>srv := s', calls := calls w @ [req]\<rparr>)"
    using assms by (simp add: fetch_def)
  then have "backoff (fetch net req) 5 w =
      \<lparr>outcome = Inr resp, final_state = w\<lparr>srv := s', calls := calls w @ [req]\<rparr>,
       slept = [], attempts = 1\<rparr>"
    by (rule backoff_first_return) simp
  then show ?thesis
    by (simp add: miro_call_def Let_def split: option.splits)
qed

lemma find_sticky_tool:
  "findTool [pat_create_sticky, pat_create_sticky_note] connect_tools =
     Some \<lparr>tool_name = ''create_sticky_note'', tool_description = ''Create a sticky note on a board''\<rparr>"
  by code_simp

text \<open>
  A failure that is an exception is isolated. Five notes, the third create call throws
  and the other four return an item (over REST) or a value that carries an id (over the
  stdio transport): the batch returns \<open>ok = 4\<close>, the four ids in \<open>created\<close> in order,
  and exactly one entry in \<open>failed\<close>, the third note with the error thrown. The calls
  after the failure are made: the final state is the one the fifth call left.
\<close>

lemma exception_isolated:
  assumes "0 < chunkSize"
    and "createSticky net b n1 w0 = (Inr (PItem i1), w1)"
    and "createSticky net b n2 w1 = (Inr (PItem i2), w2)"
    and "createSticky net b n3 w2 = (Inl e, w3)"
    and "createSticky net b n4 w3 = (Inr (PItem i4), w4)"
    and "createSticky net b n5 w4 = (Inr (PItem i5), w5)"
    and "findTool [pat_create_sticky, pat_create_sticky_note] (tools t0) = Some tool"
    and "mcp_call rpc tool (sticky_args b n1) t0 = (Inr v1, t1)" and "pushed_id v1 = Some id1"
    and "mcp_call rpc tool (sticky_args b n2) t1 = (Inr v2, t2)" and "pushed_id v2 = Some id2"
    and "mcp_call rpc tool (sticky_args b n3) t2 = (Inl e', t3)"
    and "mcp_call rpc tool (sticky_args b n4) t3 = (Inr v4, t4)" and "pushed_id v4 = Some id4"
    and "mcp_call rpc tool (sticky_args b n5) t4 = (Inr v5, t5)" and "pushed_id v5 = Some id5"
  shows "bulkCreateStickies net b [n1, n2, n3, n4, n5] chunkSize w0 =
           Some (\<lparr>ok = 4, created = [id_value i1, id_value i2, id_value i4, id_value i5],
                  failed = [(n3, e)]\<rparr>, w5) \<and>
         mcp_bulkCreateStickies rpc b [n1, n2, n3, n4, n5] chunkSize t0 =
           (Inr \<lparr>ok = 4, created = [id1, id2, id4, id5],
                 failed = [(n3, e')]\<rparr>, t5)"
proof
  show "bulkCreateStickies net b [n1, n2, n3, n4, n5] chunkSize w0 =
           Some (\<lparr>ok = 4, created = [id_value i1, id_value i2, id_value i4, id_value i5],
                  failed = [(n3, e)]\<rparr>, w5)"
    using assms(1-6) by (simp add: bulk_closed rest_create_one_def empty_result_def)
  show "mcp_bulkCreateStickies rpc b [n1, n2, n3, n4, n5] chunkSize t0 =
           (Inr \<lparr>ok = 4, created = [id1, id2, id4, id5],
                 failed = [(n3, e')]\<rparr>, t5)"
    using assms(7-16) by (simp add: mcp_bulkCreateStickies_def mcp_create_one_def empty_result_def)
qed

lemma createSticky_scripted:
  "createSticky scripted_net b n \<lparr>srv = Inr resp # rest, calls = cs\<rparr> =
     (if \<not> resp_ok resp then Inl (http_error (sticky_request b n) resp)
      else (case resp_json resp of None \<Rightarrow> Inl (plain_error ''SyntaxError'') | Some p \<Rightarrow> Inr p),
      \<lparr>srv = rest, calls = cs @ [sticky_request b n]\<rparr>)"
  by (simp add: createSticky_def miroPOST_def scripted_net_def
      miro_call_first[where resp = resp and s' = rest])

lemma mcp_call_scripted:
  "mcp_call scripted_rpc tool args \<lparr>tools = ts, connected = True, process = Some (r # rest), messageId = k\<rparr> =
     (r, \<lparr>tools = ts, connected = True, process = Some rest, messageId = k + 1\<rparr>)"
  by (simp add: mcp_call_def scripted_rpc_def)

lemma pushed_102:
  "pushed_id \<lparr>v_id = JUndefined, v_result = JStr ''Created sticky note 102 on board b''\<rparr> =
     Some (JStr ''102'')"
  by code_simp

lemma exception_isolated_run:
  "bulkCreateStickies scripted_net ''b'' demo_notes 20 \<lparr>srv = demo_responses, calls = []\<rparr> =
     Some (\<lparr>ok = 4, created = [JStr ''101'', JStr ''102'', JStr ''104'', JStr ''105''],
            failed = [(note_at ''three'' 400 0, http_error (sticky_request ''b'' (note_at ''three'' 400 0)) (failure_response 500))]\<rparr>,
           \<lparr>srv = [], calls = map (sticky_request ''b'') demo_notes\<rparr>) \<and>
   mcp_bulkCreateStickies scripted_rpc ''b'' demo_notes 20 (connected_transport demo_replies) =
     (Inr \<lparr>ok = 4, created = [JStr ''101'', JStr ''102'', JStr ''104'', JStr ''105''],
           failed = [(note_at ''three'' 400 0, plain_error ''Tool call timeout'')]\<rparr>,
      \<lparr>tools = connect_tools, connected = True, process = Some [], messageId = 7\<rparr>)"
proof -
  let ?n1 = "note_at ''one'' 0 0" and ?n2 = "note_at ''two'' 200 0"
    and ?n3 = "note_at ''three'' 400 0" and ?n4 = "note_at ''four'' 0 140"
    and ?n5 = "note_at ''five'' 200 140"
  let ?w = "\<lambda>k. \<lparr>srv = drop k demo_responses, calls = map (sticky_request ''b'') (take k demo_notes)\<rparr>"
  let ?t = "\<lambda>k. \<lparr>tools = connect_tools, connected = True, process = Some (drop k demo_replies),
    messageId = 2 + k\<rparr>"
  let ?tool = "\<lparr>tool_name = ''create_sticky_note'', tool_description = ''Create a sticky note on a board''\<rparr>"
  note defs = demo_notes_def demo_responses_def demo_replies_def connected_transport_def
    createSticky_scripted mcp_call_scripted created_response_def failure_response_def
  have cs: "0 < (20::nat)" by simp
  have r1: "createSticky scripted_net ''b'' ?n1 (?w 0) = (Inr (PItem (id_item ''101'')), ?w 1)"
    and r2: "createSticky scripted_net ''b'' ?n2 (?w 1) = (Inr (PItem (id_item ''102'')), ?w 2)"
    and r3: "createSticky scripted_net ''b'' ?n3 (?w 2) =
        (Inl (http_error (sticky_request ''b'' (note_at ''three'' 400 0)) (failure_response 500)), ?w 3)"
    and r4: "createSticky scripted_net ''b'' ?n4 (?w 3) = (Inr (PItem (id_item ''104'')), ?w 4)"
    and r5: "createSticky scripted_net ''b'' ?n5 (?w 4) = (Inr (PItem (id_item ''105'')), ?w 5)"
    by (simp_all add: defs)
  have tl: "findTool [pat_create_sticky, pat_create_sticky_note] (tools (?t 0)) = Some ?tool"
    using find_sticky_tool by simp
  have m1: "mcp_call scripted_rpc ?tool (sticky_args ''b'' ?n1) (?t 0) = (Inr (id_reply ''101''), ?t 1)"
    and m2: "mcp_call scripted_rpc ?tool (sticky_args ''b'' ?n2) (?t 1) =
        (Inr \<lparr>v_id = JUndefined, v_result = JStr ''Created sticky note 102 on board b''\<rparr>, ?t 2)"
    and m3: "mcp_call scripted_rpc ?tool (sticky_args ''b'' ?n3) (?t 2) =
        (Inl (plain_error ''Tool call timeout''), ?t 3)"
    and m4: "mcp_call scripted_rpc ?tool (sticky_args ''b'' ?n4) (?t 3) = (Inr (id_reply ''104''), ?t 4)"
    and m5: "mcp_call scripted_rpc ?tool (sticky_args ''b'' ?n5) (?t 4) = (Inr (id_reply ''105''), ?t 5)"
    by (simp_all add: defs)
  have p1: "pushed_id (id_reply ''101'') = Some (JStr ''101'')"
    and p4: "pushed_id (id_reply ''104'') = Some (JStr ''104'')"
    and p5: "pushed_id (id_reply ''105'') = Some (JStr ''105'')"
    by (simp_all add: id_reply_def pushed_id_def)
  show ?thesis
    using exception_isolated[OF cs r1 r2 r3 r4 r5 tl m1 p1 m2 pushed_102 m3 m4 p4 m5 p5]
    by (simp add: demo_notes_def demo_responses_def demo_replies_def connected_transport_def
        id_item_def id_value_def)
qed




text \<open>
  The accounting of a batch. Over the stdio transport every note is counted once. Over
  REST a note whose create call returned \<open>null\<close> is counted in \<open>ok\<close> and listed in
  \<open>failed\<close>; every other note is counted once.
\<close>

lemma length_rest_outcomes: "length (rest_outcomes net b ns w) = length ns"
  by (induction ns arbitrary: w) (auto split: prod.splits)

lemma length_mcp_outcomes: "length (mcp_outcomes rpc b tool ns t) = length ns"
  by (induction ns arbitrary: t) (auto split: prod.splits)

lemma length_returned_thrown: "length (returned os) + length (thrown os) = length os"
proof (induction os)
  case Nil
  show ?case by (simp add: returned_def thrown_def)
next
  case (Cons a os)
  obtain n r where a: "a = (n, r)" by (cases a)
  from Cons show ?case unfolding a returned_Cons thrown_Cons by (simp split: sum.splits)
qed

lemma length_rest_failed: "length (rest_failed os) = length (thrown os) + null_responses os"
proof (induction os)
  case Nil
  show ?case by (simp add: rest_failed_def thrown_def null_responses_def)
next
  case (Cons a os)
  obtain n r where a: "a = (n, r)" by (cases a)
  from Cons show ?case unfolding a thrown_Cons rest_failed_Cons
    by (simp add: null_responses_def split: sum.splits payload.splits)
qed

lemma batch_accounting:
  "(0 < chunkSize \<longrightarrow>
      (\<exists>res w'. bulkCreateStickies net b ns chunkSize w = Some (res, w') \<and>
         ok res + length (failed res) = length ns + null_responses (rest_outcomes net b ns w))) \<and>
   (mcp_bulkCreateStickies rpc b ns chunkSize t = (Inr res, t') \<longrightarrow>
      ok res + length (failed res) = length ns)"
proof (intro conjI impI)
  assume cs: "0 < chunkSize"
  let ?os = "rest_outcomes net b ns w"
  obtain w' where f: "foldl (rest_create_one net b) (empty_result, w) ns =
     (empty_result\<lparr>ok := ok empty_result + length (returned ?os),
          created := created empty_result @ rest_created ?os,
          failed := failed empty_result @ rest_failed ?os\<rparr>, w')"
    using rest_fold_char[of net b empty_result w ns] by blast
  have "length (returned ?os) + length (rest_failed ?os) = length ns + null_responses ?os"
    using length_returned_thrown[of ?os] length_rest_failed[of ?os]
    by (simp add: length_rest_outcomes)
  then show "\<exists>res w'. bulkCreateStickies net b ns chunkSize w = Some (res, w') \<and>
         ok res + length (failed res) = length ns + null_responses ?os"
    using cs f by (simp add: bulk_closed empty_result_def)
next
  assume m: "mcp_bulkCreateStickies rpc b ns chunkSize t = (Inr res, t')"
  then obtain tool where tl: "findTool [pat_create_sticky, pat_create_sticky_note] (tools t) = Some tool"
    by (auto simp: mcp_bulkCreateStickies_def split: option.splits)
  let ?os = "mcp_outcomes rpc b tool ns t"
  obtain t1 where f: "foldl (mcp_create_one rpc b tool) (empty_result, t) ns =
     (empty_result\<lparr>ok := ok empty_result + length (returned ?os),
          created := created empty_result @
            List.map_filter (\<lambda>(n, v). pushed_id v) (returned ?os),
          failed := failed empty_result @ thrown ?os\<rparr>, t1)"
    using mcp_fold_char[of rpc b tool empty_result t ns] by blast
  from m tl f have "ok res = length (returned ?os)" "failed res = thrown ?os"
    by (auto simp: mcp_bulkCreateStickies_def empty_result_def)
  then show "ok res + length (failed res) = length ns"
    using length_returned_thrown[of ?os] by (simp add: length_mcp_outcomes)
qed

text \<open>
  C9 at the failing input: one note, and a service that answers the create call with
  status 201 and the JSON body \<open>null\<close>. The loop counts the note in \<open>ok\<close>, then fails to
  read \<open>r.id\<close> and lists the same note in \<open>failed\<close>: \<open>ok + failed.length\<close> is 2 for
  one note.
\<close>

theorem null_response_counted_twice:
  "bulkCreateStickies scripted_net ''b'' [note_at ''one'' 0 0] 20
       \<lparr>srv = [Inr (created_response PNull)], calls = []\<rparr> =
     Some (\<lparr>ok = 1, created = [], failed = [(note_at ''one'' 0 0, TypeError)]\<rparr>,
           \<lparr>srv = [], calls = [sticky_request ''b'' (note_at ''one'' 0 0)]\<rparr>)"
  by (simp add: bulk_closed rest_create_one_def empty_result_def createSticky_scripted
      created_response_def)

section \<open>Properties of the REST transport and the main flow\<close>

lemma only_added_refl: "only_added P w w"
  by (simp add: only_added_def)

lemma only_added_iff:
  "only_added P w w' \<longleftrightarrow> (\<exists>new. calls w' = calls w @ new \<and> list_all P new)"
  by (auto simp: only_added_def prefix_def)

lemma only_added_trans:
  "only_added P w w1 \<Longrightarrow> only_added P w1 w2 \<Longrightarrow> only_added P w w2"
  unfolding only_added_iff by auto

lemma only_added_fetch: "P req \<Longrightarrow> only_added P w (snd (fetch net req w))"
  by (simp add: only_added_iff fetch_def split: prod.splits)

lemma backoff_loop_invariant:
  "(\<And>s. I s \<Longrightarrow> I (snd (fn s))) \<Longrightarrow> I s \<Longrightarrow>
     I (final_state (backoff_loop fn m a d e s sl))"
proof (induction fn m a d e s sl rule: backoff_loop.induct)
  case (1 fn maxAttempts attempt delay lastErr s sl)
  obtain r s' where fs: "fn s = (r, s')" by (cases "fn s")
  have s': "I s'" using "1.prems"(1)[OF "1.prems"(2)] fs by simp
  show ?case
  proof (cases "attempt \<le> maxAttempts")
    case False
    then show ?thesis using "1.prems"(2) by (subst backoff_loop_unfold) simp
  next
    case True
    show ?thesis
    proof (cases r)
      case (Inr v)
      with True fs s' show ?thesis by (subst backoff_loop_unfold) simp
    next
      case (Inl err)
      show ?thesis
      proof (cases "fail_fast err \<or> attempt = maxAttempts")
        case True
        with \<open>attempt \<le> maxAttempts\<close> Inl fs s' show ?thesis
          by (subst backoff_loop_unfold) auto
      next
        case False
        have "I (final_state (backoff_loop fn maxAttempts (attempt + 1)
            (min (delay * 2) 8000) err s' (sl @ [delay])))"
          using "1.IH"[OF True fs[symmetric] Inl _ _ "1.prems"(1) s'] False by simp
        with False True Inl fs show ?thesis
          by (subst backoff_loop_unfold) simp
      qed
    qed
  qed
qed

lemma only_added_miro_call:
  assumes "P req"
  shows "only_added P w (snd (miro_call net req w))"
proof -
  have "only_added P w (final_state (backoff (fetch net req) 5 w))"
    unfolding backoff_def
  proof (rule backoff_loop_invariant)
    show "only_added P w w" by (rule only_added_refl)
  next
    fix s assume "only_added P w s"
    then show "only_added P w (snd (fetch net req s))"
      using only_added_fetch[of P req, OF assms] only_added_trans by blast
  qed
  then show ?thesis
    by (simp add: miro_call_def Let_def split: sum.splits option.splits)
qed

lemma getOrCreateFrame_calls:
  "only_added (\<lambda>r. \<not> is_sticky_create r) w (snd (getOrCreateFrame net b title x y wd ht w))"
proof -
  let ?P = "\<lambda>r. \<not> is_sticky_create r"
  obtain r1 w1 where g: "miroGET net (GET_items b ''frame'' 50) w = (r1, w1)"
    by (cases "miroGET net (GET_items b ''frame'' 50) w")
  have a1: "only_added ?P w w1"
    using only_added_miro_call[of ?P "GET_items b ''frame'' 50" w net] g
    by (simp add: miroGET_def)
  let ?req = "POST_frames b \<lparr>fb_title = title, fb_x = x, fb_y = y, fb_width = wd,
      fb_height = ht, fb_fillColor = ''transparent''\<rparr>"
  obtain r2 w2 where p: "miroPOST net ?req w1 = (r2, w2)"
    by (cases "miroPOST net ?req w1")
  have "only_added ?P w1 w2"
    using only_added_miro_call[of ?P ?req w1 net] p by (simp add: miroPOST_def)
  with a1 have a2: "only_added ?P w w2" by (rule only_added_trans)
  show ?thesis
    using g p a1 a2
    by (auto simp: getOrCreateFrame_def split: sum.splits option.splits payload.splits)
qed

lemma listStickyNotesInFrame_calls:
  "only_added (\<lambda>r. \<not> is_sticky_create r) w (snd (listStickyNotesInFrame net b f w))"
proof -
  let ?P = "\<lambda>r. \<not> is_sticky_create r"
  obtain r1 w1 where g: "miroGET net (GET_items b ''sticky_note'' 50) w = (r1, w1)"
    by (cases "miroGET net (GET_items b ''sticky_note'' 50) w")
  have a1: "only_added ?P w w1"
    using only_added_miro_call[of ?P "GET_items b ''sticky_note'' 50" w net] g
    by (simp add: miroGET_def)
  show ?thesis
    using g a1 by (auto simp: listStickyNotesInFrame_def split: sum.splits)
qed

lemma list_both_calls:
  "only_added (\<lambda>r. \<not> is_sticky_create r) w (snd (list_both (RestTransport net) b f1 f2 w))"
proof -
  let ?P = "\<lambda>r. \<not> is_sticky_create r"
  obtain r1 w1 where l1: "listStickyNotesInFrame net b f1 w = (r1, w1)"
    by (cases "listStickyNotesInFrame net b f1 w")
  obtain r2 w2 where l2: "listStickyNotesInFrame net b f2 w1 = (r2, w2)"
    by (cases "listStickyNotesInFrame net b f2 w1")
  have "only_added ?P w w1" using listStickyNotesInFrame_calls[of w net b f1] l1 by simp
  moreover have "only_added ?P w1 w2" using listStickyNotesInFrame_calls[of w1 net b f2] l2 by simp
  ultimately have "only_added ?P w w2" by (rule only_added_trans)
  then show ?thesis
    using l1 l2 by (auto simp: list_both_def RestTransport_def split: sum.splits)
qed

lemma layout_columns3: "\<exists>ns. gridLayoutInFrame fr its columns3 = Some ns"
  by (simp add: gridLayoutInFrame_def columns3_def coalesce_def Let_def)

lemma rest_preview_no_sticky:
  "\<exists>r w'. main_flow (RestTransport net) digest llm b False transcript w = Some (r, w') \<and>
      (\<forall>pv sm. r \<noteq> Executed pv sm) \<and>
      only_added (\<lambda>req. \<not> is_sticky_create req) w w'"
proof -
  let ?P = "\<lambda>r. \<not> is_sticky_create r"
  let ?tr = "RestTransport net"
  obtain r1 w1 where f1: "getOrCreateFrame net b ''Insights'' (- 900) 0 1400 900 w = (r1, w1)"
    by (cases "getOrCreateFrame net b ''Insights'' (- 900) 0 1400 900 w")
  obtain r2 w2 where f2: "getOrCreateFrame net b ''Risks'' 900 0 1400 900 w1 = (r2, w2)"
    by (cases "getOrCreateFrame net b ''Risks'' 900 0 1400 900 w1")
  have a1: "only_added ?P w w1"
    using getOrCreateFrame_calls[of w net b "''Insights''" "- 900" 0 1400 900] f1 by simp
  have "only_added ?P w1 w2"
    using getOrCreateFrame_calls[of w1 net b "''Risks''" 900 0 1400 900] f2 by simp
  with a1 have a2: "only_added ?P w w2" by (rule only_added_trans)
  have a3: "only_added ?P w (snd (list_both ?tr b g1 g2 w2))" for g1 g2
    using a2 list_both_calls[of w2 net b g1 g2] by (rule only_added_trans)
  have tr1: "tr_getOrCreateFrame ?tr = getOrCreateFrame net"
    by (simp add: RestTransport_def)
  show ?thesis
  proof (cases "transcript = []")
    case True
    then show ?thesis by (simp add: main_flow_def only_added_refl)
  next
    case ne: False
    show ?thesis
    proof (cases "getInsightsRisksFromClaude digest llm transcript")
      case (Inl e)
      with ne show ?thesis by (simp add: main_flow_def only_added_refl)
    next
      case (Inr ex)
      show ?thesis
      proof (cases r1)
        case (Inl e)
        with ne Inr f1 a1 show ?thesis by (simp add: main_flow_def tr1 Let_def)
      next
        case fr1: (Inr insightsFrame)
        show ?thesis
        proof (cases r2)
          case (Inl e)
          with ne Inr f1 fr1 f2 a2 show ?thesis by (simp add: main_flow_def tr1 Let_def)
        next
          case fr2: (Inr risksFrame)
          obtain r3 w3 where lb: "list_both ?tr b (frame_id insightsFrame) (frame_id risksFrame) w2 = (r3, w3)"
            by (cases "list_both ?tr b (frame_id insightsFrame) (frame_id risksFrame) w2")
          have a4: "only_added ?P w w3"
            using a3[of "frame_id insightsFrame" "frame_id risksFrame"] lb by simp
          show ?thesis
          proof (cases r3)
            case (Inl e)
            with ne Inr f1 fr1 f2 fr2 lb a4 show ?thesis
              by (simp add: main_flow_def tr1 Let_def)
          next
            case ex3: (Inr both)
            obtain xs ys where both: "both = (xs, ys)" by (cases both)
            obtain n1 where g1: "gridLayoutInFrame insightsFrame
                (to_create (ir_runId ex) xs (map (decorate (ir_runId ex)) (ir_insights ex))) columns3 = Some n1"
              using layout_columns3 by blast
            obtain n2 where g2: "gridLayoutInFrame risksFrame
                (to_create (ir_runId ex) ys (map (decorate (ir_runId ex)) (ir_risks ex))) columns3 = Some n2"
              using layout_columns3 by blast
            from ne Inr f1 fr1 f2 fr2 lb ex3 both g1 g2 a4 show ?thesis
              by (simp add: main_flow_def tr1 Let_def)
          qed
        qed
      qed
    qed
  qed
qed

lemma list_both_bulk_irrelevant:
  "list_both (tr\<lparr>tr_bulkCreateStickies := f\<rparr>) b f1 f2 w = list_both tr b f1 f2 w"
  by (simp add: list_both_def)

lemma preview_never_calls_bulk:
  "main_flow (tr\<lparr>tr_bulkCreateStickies := f\<rparr>) digest llm b False transcript w =
   main_flow tr digest llm b False transcript w"
  by (simp add: main_flow_def list_both_bulk_irrelevant Let_def
      cong: sum.case_cong prod.case_cong option.case_cong)

text \<open>
  What a run without \<open>--execute\<close> withholds. The batch operation of the transport is
  never invoked, whichever transport is in use: the run is the same with any other batch
  operation in its place. Over REST, whatever the network and the service do, the run
  ends at an error or at the preview, never in the execute steps, and between its start
  and its end no request that creates a sticky note is sent. Requests that create frames
  are not excluded: \<open>getOrCreateFrame\<close> runs before the preview.
\<close>

lemma preview_creates_no_sticky:
  "main_flow (tr\<lparr>tr_bulkCreateStickies := f\<rparr>) digest llm b False transcript w0 =
     main_flow tr digest llm b False transcript w0 \<and>
   (\<exists>r w'. main_flow (RestTransport net) digest llm b False transcript w = Some (r, w') \<and>
      (\<forall>pv sm. r \<noteq> Executed pv sm) \<and>
      only_added (\<lambda>req. \<not> is_sticky_create req) w w')"
  using preview_never_calls_bulk[where tr = tr and f = f and digest = digest and llm = llm
      and b = b and transcript = transcript and w = w0]
    rest_preview_no_sticky[where net = net and digest = digest and llm = llm and b = b
      and transcript = transcript and w = w]
  by (rule conjI)

lemma preview_creates_no_sticky_run:
  "main_flow ((RestTransport miro)\<lparr>tr_bulkCreateStickies := (\<lambda>boardId ns chunkSize w. None)\<rparr>)
       demo_digest demo_llm ''b'' False ''t'' \<lparr>srv = empty_board, calls = []\<rparr> =
     main_flow (RestTransport miro) demo_digest demo_llm ''b'' False ''t''
       \<lparr>srv = empty_board, calls = []\<rparr> \<and>
   (\<exists>r w'. main_flow (RestTransport miro) demo_digest demo_llm ''b'' False ''t''
       \<lparr>srv = empty_board, calls = []\<rparr> = Some (r, w') \<and>
      (\<forall>pv sm. r \<noteq> Executed pv sm) \<and>
      only_added (\<lambda>req. \<not> is_sticky_create req) \<lparr>srv = empty_board, calls = []\<rparr> w')"
  using preview_creates_no_sticky[where tr = "RestTransport miro"
      and f = "\<lambda>boardId ns chunkSize w. None" and digest = demo_digest and llm = demo_llm
      and b = "''b''" and transcript = "''t''" and ?w0.0 = "\<lparr>srv = empty_board, calls = []\<rparr>"
      and net = miro and w = "\<lparr>srv = empty_board, calls = []\<rparr>"]
  by simp

section \<open>Runs of the main flow on the board model\<close>

text \<open>
  C1 at the failing input: an empty board, a transcript whose extraction is one insight.
  The first executing run creates the two frames and the note (created 1, failed 0). The
  second run, on the board the first one left, lists no note under either frame and
  computes the same decorated insight as an item to create.
\<close>

theorem second_run_creates_again:
  "map_option (\<lambda>(r1, r2). (created_and_failed r1, toCreate r2))
     (run_twice (RestTransport miro) demo_digest demo_llm ''b'' ''t''
        \<lparr>srv = empty_board, calls = []\<rparr>) =
   Some (Some (1, 0), Some ([decorate ''e3b0c44298'' ''Ship on Friday''], []))"
  by code_simp

text \<open>
  C2 at the failing input: an empty board and a run without \<open>--execute\<close>. Before it
  stops at the preview the run has sent two requests that create a frame, one for each
  title: the dry run writes to the board.
\<close>

theorem preview_creates_frames:
  "map_option (\<lambda>(r, w). filter is_frame_create (calls w))
     (main_flow (RestTransport miro) demo_digest demo_llm ''b'' False ''t''
        \<lparr>srv = empty_board, calls = []\<rparr>) =
   Some [POST_frames ''b'' \<lparr>fb_title = ''Insights'', fb_x = - 900, fb_y = 0, fb_width = 1400,
           fb_height = 900, fb_fillColor = ''transparent''\<rparr>,
         POST_frames ''b'' \<lparr>fb_title = ''Risks'', fb_x = 900, fb_y = 0, fb_width = 1400,
           fb_height = 900, fb_fillColor = ''transparent''\<rparr>]"
  by code_simp

lemma miro_call_miro_get:
  "miro_call miro (GET_items b ty k) w =
     (Inr (PPage (take k (filter (\<lambda>it. item_type it = Some ty) (board_items (srv w))))),
      w\<lparr>calls := calls w @ [GET_items b ty k]\<rparr>)"
  by (simp add: miro_call_first[where s' = "srv w" and resp = "\<lparr>resp_ok = True, resp_status = 200,
           resp_json = Some (PPage (take k (filter (\<lambda>it. item_type it = Some ty) (board_items (srv w))))),
           resp_text = []\<rparr>"])

lemma listStickyNotesInFrame_miro:
  "fst (listStickyNotesInFrame miro b f w) =
     Inr (filter (\<lambda>n. item_parent n = f)
       (take 50 (filter (\<lambda>it. item_type it = Some ''sticky_note'') (board_items (srv w)))))"
  by (simp add: listStickyNotesInFrame_def miroGET_def miro_call_miro_get)

lemma createSticky_miro:
  "createSticky miro b note w =
     (Inr (PItem (stored_sticky (srv w) (sticky_body_of note))),
      w\<lparr>srv := (srv w)\<lparr>board_items := board_items (srv w) @
              [stored_sticky (srv w) (sticky_body_of note)],
            board_next := Suc (board_next (srv w))\<rparr>,
        calls := calls w @ [sticky_request b note]\<rparr>)"
proof -
  have "miro (srv w) (sticky_request b note) =
      (Inr (created_response (PItem (stored_sticky (srv w) (sticky_body_of note)))),
       (srv w)\<lparr>board_items := board_items (srv w) @ [stored_sticky (srv w) (sticky_body_of note)],
            board_next := Suc (board_next (srv w))\<rparr>)"
    by (simp add: sticky_request_def store_def)
  then show ?thesis
    unfolding createSticky_def miroPOST_def
    by (simp add: miro_call_first created_response_def)
qed

lemma listStickyNotesInFrame_parent:
  assumes "listStickyNotesInFrame net b f w = (Inr ns, w')"
  shows "\<forall>n \<in> set ns. item_parent n = f"
proof -
  obtain r1 w1 where g: "miroGET net (GET_items b ''sticky_note'' 50) w = (r1, w1)"
    by (cases "miroGET net (GET_items b ''sticky_note'' 50) w")
  from assms g show ?thesis
    by (auto simp: listStickyNotesInFrame_def split: sum.splits)
qed

lemma take_filter_snoc_parentless:
  assumes "item_parent it = None"
  shows "filter (\<lambda>n. item_parent n = Some fid) (take k (filter Q (xs @ [it]))) =
         filter (\<lambda>n. item_parent n = Some fid) (take k (filter Q xs))"
  using assms by (cases "Q it"; cases "k - length (filter Q xs)") simp_all

text \<open>
  C10. Every request \<open>createSticky\<close> sends, retries included, creates a sticky note
  with no parent reference, whatever \<open>parentId\<close> the note carries. A listing for the
  frame \<open>fid\<close> returns only items whose parent is \<open>fid\<close>. On the board model, where the
  service stores what it is sent, the note is on the board after \<open>createSticky\<close>, with
  its content and without a parent, and the listing for any frame \<open>fid\<close> is what it was
  before.
\<close>

theorem rest_sticky_never_in_frame:
  "only_added parentless_sticky_create w (snd (createSticky net b note w)) \<and>
   (listStickyNotesInFrame net b (Some fid) w = (Inr ns, w') \<longrightarrow>
      (\<forall>n \<in> set ns. item_parent n = Some fid)) \<and>
   (\<exists>it. board_items (srv (snd (createSticky miro b note w0))) = board_items (srv w0) @ [it] \<and>
      item_content it = Some (content note) \<and> item_parent it = None) \<and>
   fst (listStickyNotesInFrame miro b (Some fid) (snd (createSticky miro b note w0))) =
     fst (listStickyNotesInFrame miro b (Some fid) w0)"
proof (intro conjI impI)
  have "parentless_sticky_create (sticky_request b note)"
    by (simp add: sticky_request_def sticky_body_of_def)
  then show "only_added parentless_sticky_create w (snd (createSticky net b note w))"
    unfolding createSticky_def miroPOST_def by (rule only_added_miro_call)
next
  assume "listStickyNotesInFrame net b (Some fid) w = (Inr ns, w')"
  then show "\<forall>n \<in> set ns. item_parent n = Some fid"
    by (rule listStickyNotesInFrame_parent)
next
  show "\<exists>it. board_items (srv (snd (createSticky miro b note w0))) = board_items (srv w0) @ [it] \<and>
      item_content it = Some (content note) \<and> item_parent it = None"
    by (rule exI[of _ "stored_sticky (srv w0) (sticky_body_of note)"])
      (simp add: createSticky_miro stored_sticky_def sticky_body_of_def item_content_def)
next
  show "fst (listStickyNotesInFrame miro b (Some fid) (snd (createSticky miro b note w0))) =
     fst (listStickyNotesInFrame miro b (Some fid) w0)"
  proof -
    let ?it = "stored_sticky (srv w0) (sticky_body_of note)"
    let ?Q = "\<lambda>it. item_type it = Some ''sticky_note''"
    let ?P = "\<lambda>n. item_parent n = Some fid"
    have np: "item_parent ?it = None"
      by (simp add: stored_sticky_def sticky_body_of_def)
    have "fst (listStickyNotesInFrame miro b (Some fid) (snd (createSticky miro b note w0))) =
        Inr (filter ?P (take 50 (filter ?Q (board_items (srv w0) @ [?it]))))"
      by (simp add: listStickyNotesInFrame_miro createSticky_miro del: filter_append)
    also have "\<dots> = Inr (filter ?P (take 50 (filter ?Q (board_items (srv w0)))))"
      by (simp only: take_filter_snoc_parentless[OF np])
    also have "\<dots> = fst (listStickyNotesInFrame miro b (Some fid) w0)"
      by (simp add: listStickyNotesInFrame_miro)
    finally show ?thesis .
  qed
qed

theorem rest_sticky_never_in_frame_witness:
  "fst (listStickyNotesInFrame miro ''b'' (Some ''1'') \<lparr>srv = framed_board, calls = []\<rparr>) =
     Inr [child_sticky] \<and>
   item_parent child_sticky = Some ''1'' \<and>
   parentId framed_note = Some ''1'' \<and>
   fst (listStickyNotesInFrame miro ''b'' (Some ''1'')
          (snd (createSticky miro ''b'' framed_note \<lparr>srv = framed_board, calls = []\<rparr>))) =
     Inr [child_sticky]"
proof -
  have l: "listStickyNotesInFrame miro ''b'' (Some ''1'') \<lparr>srv = framed_board, calls = []\<rparr> =
      (Inr [child_sticky], \<lparr>srv = framed_board, calls = [GET_items ''b'' ''sticky_note'' 50]\<rparr>)"
    by code_simp
  have p: "parentId framed_note = Some ''1''"
    by (simp add: framed_note_def)
  show ?thesis
    using rest_sticky_never_in_frame[of "\<lparr>srv = framed_board, calls = []\<rparr>" miro "''b''" framed_note
        "''1''" "[child_sticky]" "\<lparr>srv = framed_board, calls = [GET_items ''b'' ''sticky_note'' 50]\<rparr>"
        "\<lparr>srv = framed_board, calls = []\<rparr>"] l p
    by simp
qed

section \<open>Properties of a tool call over stdio\<close>

lemmas eval_text = toString_def chunk1_def chunk2_def result_line_def ascii_def

lemma decoded_apart:
  "toString chunk1 @ toString chunk2 = result_line (ascii ''caf'' @ [0xFFFD, 0xFFFD]) @ [10]"
  by (simp add: eval_text)

lemma decoded_whole:
  "toString (chunk1 @ chunk2) = result_line (ascii ''caf'' @ [0xE9]) @ [10]"
  by (simp add: eval_text)

lemma includes_id:
  "js_includes ([0x7B] @ id_pattern @ rest) id_pattern"
  unfolding js_includes_def sublist_def
  by (rule exI[of _ "[0x7B]"], rule exI[of _ rest]) simp

lemma split_on_no_sep: "sep \<notin> set s \<Longrightarrow> split_on sep s = [s]"
  by (induction s) (auto split: list.splits)

lemma split_on_last: "sep \<notin> set s \<Longrightarrow> split_on sep (s @ [sep]) = [s, []]"
  by (induction s) (auto split: list.splits)

lemma first_fragment:
  "split_on 10 (toString chunk1) = [toString chunk1]"
  "has_text (toString chunk1)" "js_includes (toString chunk1) id_pattern"
proof -
  show "split_on 10 (toString chunk1) = [toString chunk1]"
    by (rule split_on_no_sep) (simp add: eval_text)
  show "has_text (toString chunk1)"
    by (simp add: eval_text has_text_def js_white_def)
  have "toString chunk1 = [0x7B] @ id_pattern @ drop 5 (toString chunk1)"
    by (simp add: eval_text id_pattern_def)
  then show "js_includes (toString chunk1) id_pattern"
    using includes_id by metis
qed

lemma result_line_facts:
  assumes "10 \<notin> set t"
  shows "split_on 10 (result_line t @ [10]) = [result_line t, []]"
    and "has_text (result_line t)" and "js_includes (result_line t) id_pattern"
proof -
  show "split_on 10 (result_line t @ [10]) = [result_line t, []]"
    using assms by (intro split_on_last) (simp add: result_line_def ascii_def)
  show "has_text (result_line t)"
    by (simp add: result_line_def ascii_def has_text_def js_white_def)
  have "result_line t = [0x7B] @ id_pattern @ drop 5 (result_line t)"
    by (simp add: result_line_def ascii_def id_pattern_def)
  then show "js_includes (result_line t) id_pattern"
    using includes_id by metis
qed

lemma line_apart:
  "split_on 10 (result_line (ascii ''caf'' @ [0xFFFD, 0xFFFD]) @ [10]) =
     [result_line (ascii ''caf'' @ [0xFFFD, 0xFFFD]), []]"
  "has_text (result_line (ascii ''caf'' @ [0xFFFD, 0xFFFD]))"
  "js_includes (result_line (ascii ''caf'' @ [0xFFFD, 0xFFFD])) id_pattern"
  by (rule result_line_facts, simp add: ascii_def)+

lemma line_whole:
  "split_on 10 (result_line (ascii ''caf'' @ [0xE9]) @ [10]) =
     [result_line (ascii ''caf'' @ [0xE9]), []]"
  "has_text (result_line (ascii ''caf'' @ [0xE9]))"
  "js_includes (result_line (ascii ''caf'' @ [0xE9])) id_pattern"
  by (rule result_line_facts, simp add: ascii_def)+

lemma handle_result_line:
  assumes "parse (result_line t) = Some (result_value t)"
    and "has_text (result_line t)" and "js_includes (result_line t) id_pattern"
  shows "handle_line parse to_str now rnd tool args 1 (result_line t) = Resolved (Some (J_str t))"
  using assms
  by (simp add: handle_line_def decode_response_def result_value_def ascii_def Let_def)

text \<open>
  C3 at the failing input: the response line \<open>{"id":1,"result":"caf\<dots>"}\<close>, where
  the dots stand for the letter e with an acute accent (two bytes, C3 A9), reaches
  the client in two \<open>data\<close> events cut between those two bytes. Each chunk is decoded
  on its own: the first ends and the second starts with U+FFFD. For every parser that
  rejects the unfinished first fragment and parses the two complete lines as JSON does,
  the call is resolved with the text \<open>caf\<close> followed by two replacement characters;
  had the line arrived in one event, it would be resolved with the text sent.
\<close>

theorem split_inside_character:
  assumes "parse (toString chunk1) = None"
    and "parse (result_line (ascii ''caf'' @ [0xFFFD, 0xFFFD])) =
           Some (result_value (ascii ''caf'' @ [0xFFFD, 0xFFFD]))"
    and "parse (result_line (ascii ''caf'' @ [0xE9])) = Some (result_value (ascii ''caf'' @ [0xE9]))"
  shows "settled (receive (handle_line parse to_str now rnd tool args 1) [chunk1, chunk2]) =
           Some (Inr (Some (J_str (ascii ''caf'' @ [0xFFFD, 0xFFFD])))) \<and>
         settled (receive (handle_line parse to_str now rnd tool args 1) [chunk1 @ chunk2]) =
           Some (Inr (Some (J_str (ascii ''caf'' @ [0xE9]))))"
proof -
  define h where "h = handle_line parse to_str now rnd tool args 1"
  have h1: "h (toString chunk1) = NoMatch"
    using assms(1) by (simp add: h_def handle_line_def)
  have h2: "h (result_line (ascii ''caf'' @ [0xFFFD, 0xFFFD])) =
      Resolved (Some (J_str (ascii ''caf'' @ [0xFFFD, 0xFFFD])))"
    unfolding h_def using assms(2) line_apart(2,3) by (rule handle_result_line)
  have h3: "h (result_line (ascii ''caf'' @ [0xE9])) = Resolved (Some (J_str (ascii ''caf'' @ [0xE9])))"
    unfolding h_def using assms(3) line_whole(2,3) by (rule handle_result_line)
  have s1: "onData h pending_call chunk1 = pending_call\<lparr>responseData := toString chunk1\<rparr>"
    by (simp add: onData_def pending_call_def first_fragment(1) h1)
  have s2: "settled (onData h (pending_call\<lparr>responseData := toString chunk1\<rparr>) chunk2) =
      Some (Inr (Some (J_str (ascii ''caf'' @ [0xFFFD, 0xFFFD]))))"
    by (simp add: onData_def pending_call_def decoded_apart line_apart(1) h2 settle_def Let_def)
  have s3: "settled (onData h pending_call (chunk1 @ chunk2)) =
      Some (Inr (Some (J_str (ascii ''caf'' @ [0xE9]))))"
    by (simp add: onData_def pending_call_def decoded_whole line_whole(1) h3 settle_def Let_def)
  have "settled (receive h [chunk1, chunk2]) =
           Some (Inr (Some (J_str (ascii ''caf'' @ [0xFFFD, 0xFFFD])))) \<and>
         settled (receive h [chunk1 @ chunk2]) = Some (Inr (Some (J_str (ascii ''caf'' @ [0xE9]))))"
    by (simp add: receive_def s1 s2 s3)
  then show ?thesis by (simp only: h_def)
qed

theorem split_inside_character_witness:
  "settled (receive (handle_line two_line_parse (\<lambda>v. []) 0 [] (ascii ''get_items_in_frame'') J_null 1)
      [chunk1, chunk2]) = Some (Inr (Some (J_str (ascii ''caf'' @ [0xFFFD, 0xFFFD])))) \<and>
   settled (receive (handle_line two_line_parse (\<lambda>v. []) 0 [] (ascii ''get_items_in_frame'') J_null 1)
      [chunk1 @ chunk2]) = Some (Inr (Some (J_str (ascii ''caf'' @ [0xE9]))))"
proof -
  have 1: "two_line_parse (toString chunk1) = None"
    by (simp add: two_line_parse_def eval_text)
  have 2: "two_line_parse (result_line (ascii ''caf'' @ [0xFFFD, 0xFFFD])) =
           Some (result_value (ascii ''caf'' @ [0xFFFD, 0xFFFD]))"
    by (simp add: two_line_parse_def result_line_def)
  have 3: "two_line_parse (result_line (ascii ''caf'' @ [0xE9])) =
           Some (result_value (ascii ''caf'' @ [0xE9]))"
    by (simp add: two_line_parse_def)
  show ?thesis using split_inside_character[OF 1 2 3] .
qed

text \<open>
  Where the cut falls between two characters the two events leave the call in the state
  one event would: the buffer is the concatenation, and the second event scans all of
  it. A first chunk of ASCII bytes is such a cut.
\<close>

lemma utf8_decode_ascii:
  "\<forall>b \<in> set bs. b \<le> 0x7F \<Longrightarrow> utf8_decode Idle (bs @ cs) = bs @ utf8_decode Idle cs"
  by (induction bs) simp_all

lemma toString_ascii_prefix:
  "\<forall>c \<in> set c1. (of_char c :: nat) \<le> 0x7F \<Longrightarrow> toString (c1 @ c2) = toString c1 @ toString c2"
  using utf8_decode_ascii[of "map of_char c1" "map of_char c2"] utf8_decode_ascii[of "map of_char c1" "[]"]
  by (simp add: toString_def)

lemma reassembly_at_character_boundary:
  assumes "toString (c1 @ c2) = toString c1 @ toString c2"
    and "listening st"
    and "onData h st c1 = st\<lparr>responseData := responseData st @ toString c1\<rparr>"
  shows "onData h (onData h st c1) c2 = onData h st (c1 @ c2)"
  using assms by (simp add: onData_def Let_def)

section \<open>A failure reported in the reply\<close>

lemma error_chunk_text: "toString error_chunk = error_line @ [10]"
  by (simp add: toString_def error_chunk_def error_line_def ascii_def id_pattern_def)

lemma error_line_facts:
  "split_on 10 (error_line @ [10]) = [error_line, []]"
  "has_text error_line" "js_includes error_line id_pattern"
proof -
  show "split_on 10 (error_line @ [10]) = [error_line, []]"
    by (intro split_on_last) (simp add: error_line_def ascii_def id_pattern_def)
  show "has_text error_line"
    by (simp add: error_line_def ascii_def has_text_def js_white_def)
  show "js_includes error_line id_pattern"
    unfolding js_includes_def sublist_def error_line_def
    by (rule exI[of _ "ascii ''{'' @ [0x22] @ ascii ''jsonrpc'' @ [0x22] @ ascii '':'' @ [0x22] @
     ascii ''2.0'' @ [0x22] @ ascii '',''"], rule exI) simp
qed

lemma handle_error_line:
  assumes "parse error_line = Some error_envelope"
  shows "handle_line parse to_str now rnd tool args 4 error_line = Resolved None"
  using assms error_line_facts(2,3)
  by (simp add: handle_line_def decode_response_def error_envelope_def ascii_def Let_def)

text \<open>
  C4 at the failing input: five notes over the stdio transport, and a child process
  that answers the third create call, the one with the message id 4, with a JSON-RPC
  error. For every parser that parses that line as JSON does, \<open>call\<close> resolves with
  \<open>undefined\<close>: the reply has no \<open>result\<close>, and nothing rejects the promise. The loop
  counts a call that resolved: the batch returns \<open>ok = 5\<close>, four ids in \<open>created\<close> and
  an empty \<open>failed\<close> list, where the failed creation of the third note should give
  \<open>ok = 4\<close> and one entry in \<open>failed\<close>.
\<close>

theorem error_reply_counted_ok:
  assumes "parse error_line = Some error_envelope"
  shows "settled (receive (handle_line parse to_str now rnd tool args 4) [error_chunk]) =
           Some (Inr None) \<and>
         mcp_bulkCreateStickies scripted_rpc ''b'' demo_notes 20 (connected_transport error_replies) =
           (Inr \<lparr>ok = 5, created = [JStr ''101'', JStr ''102'', JStr ''104'', JStr ''105''],
                 failed = []\<rparr>,
            \<lparr>tools = connect_tools, connected = True, process = Some [], messageId = 7\<rparr>)"
proof
  define h where "h = handle_line parse to_str now rnd tool args 4"
  have h1: "h error_line = Resolved None"
    unfolding h_def using assms by (rule handle_error_line)
  have "settled (onData h pending_call error_chunk) = Some (Inr None)"
    by (simp add: onData_def pending_call_def error_chunk_text error_line_facts(1) h1 settle_def Let_def)
  then have "settled (receive h [error_chunk]) = Some (Inr None)"
    by (simp add: receive_def)
  then show "settled (receive (handle_line parse to_str now rnd tool args 4) [error_chunk]) =
           Some (Inr None)"
    by (simp only: h_def)
next
  let ?tool = "\<lparr>tool_name = ''create_sticky_note'', tool_description = ''Create a sticky note on a board''\<rparr>"
  have p: "pushed_id (id_reply i) = Some (JStr i)" if "i \<noteq> []" for i
    using that by (simp add: id_reply_def pushed_id_def)
  have u: "pushed_id undefined_reply = None"
    by (simp add: undefined_reply_def pushed_id_def)
  have tl: "findTool [pat_create_sticky, pat_create_sticky_note]
      (tools (connected_transport error_replies)) = Some ?tool"
    using find_sticky_tool by (simp add: connected_transport_def)
  have f: "foldl (mcp_create_one scripted_rpc ''b'' ?tool)
      (empty_result, connected_transport error_replies) demo_notes =
      (\<lparr>ok = 5, created = [JStr ''101'', JStr ''102'', JStr ''104'', JStr ''105''], failed = []\<rparr>,
       \<lparr>tools = connect_tools, connected = True, process = Some [], messageId = 7\<rparr>)"
    by (simp add: connected_transport_def demo_notes_def error_replies_def mcp_create_one_def
        mcp_call_scripted empty_result_def p u pushed_102)
  show "mcp_bulkCreateStickies scripted_rpc ''b'' demo_notes 20 (connected_transport error_replies) =
           (Inr \<lparr>ok = 5, created = [JStr ''101'', JStr ''102'', JStr ''104'', JStr ''105''],
                 failed = []\<rparr>,
            \<lparr>tools = connect_tools, connected = True, process = Some [], messageId = 7\<rparr>)"
    unfolding mcp_bulkCreateStickies_def tl by (simp add: f)
qed

theorem error_reply_counted_ok_witness:
  "settled (receive (handle_line error_parse (\<lambda>v. []) 0 [] (ascii ''create_sticky_note'') J_null 4)
      [error_chunk]) = Some (Inr None) \<and>
   mcp_bulkCreateStickies scripted_rpc ''b'' demo_notes 20 (connected_transport error_replies) =
     (Inr \<lparr>ok = 5, created = [JStr ''101'', JStr ''102'', JStr ''104'', JStr ''105''],
           failed = []\<rparr>,
      \<lparr>tools = connect_tools, connected = True, process = Some [], messageId = 7\<rparr>)"
proof -
  have 1: "error_parse error_line = Some error_envelope"
    by (simp add: error_parse_def)
  show ?thesis
    using error_reply_counted_ok[where parse = error_parse and to_str = "\<lambda>v. []" and now = 0
        and rnd = "[]" and tool = "ascii ''create_sticky_note''" and args = J_null, OF 1] .
qed

end
